theory Spec2Isabelle
  imports Complex_Main
begin

section \<open>Values exchanged with the remote API\<close>

text \<open>
  The program of \<^verbatim>\<open>avg_crypto_price.py\<close> talks to an HTTP API through a
  \<^verbatim>\<open>requests.Session\<close>, decodes JSON bodies and keeps the prices it reads in a
  bounded \<^verbatim>\<open>deque\<close>.  A decoded JSON document is a value of the following type;
  Python keeps integers and floats apart, and so does the model.  A float is an
  IEEE-754 binary64 value.  \<open>JFloat x\<close> is the finite float whose exact value is the
  real \<open>x\<close>: the decoder has already rounded the literal of the body to it (the sign
  of a zero is not kept).  \<open>JNonFinite\<close> is what the decoder makes of the literals
  \<^verbatim>\<open>Infinity\<close>, \<^verbatim>\<open>-Infinity\<close>, \<^verbatim>\<open>NaN\<close> and of a literal too large for a float.
\<close>

datatype special = PosInf | NegInf | NaN

datatype json =
    JNull
  | JBool bool
  | JInt int
  | JFloat real
  | JNonFinite special
  | JStr string
  | JArr "json list"
  | JObj "(string \<times> json) list"

text \<open>
  The fields of a \<^verbatim>\<open>requests.Response\<close> the program reads.  \<open>json_body\<close> is the
  outcome of \<^verbatim>\<open>response.json()\<close>: the decoder's message when the body is not
  JSON, the decoded document otherwise.
\<close>

record response =
  status_code :: int
  reason :: string
  url :: string
  body_text :: string
  json_body :: "string + json"

text \<open>
  Exceptions are values.  Only the class (which decides whether the retrier
  retries), the text \<^verbatim>\<open>str(e)\<close> and the \<^verbatim>\<open>response\<close> attribute of a
  \<^verbatim>\<open>requests.RequestException\<close> are ever inspected by the program.
  \<open>RequestException\<close> stands for the class and all its subclasses
  (\<^verbatim>\<open>ConnectionError\<close>, \<^verbatim>\<open>HTTPError\<close>, \<^verbatim>\<open>JSONDecodeError\<close>, ...);
  \<open>PlainException\<close> is the class \<^verbatim>\<open>Exception\<close> itself.
\<close>

datatype exc_class =
    ShutdownRequested
  | RequestException
  | PlainException
  | KeyError
  | TypeError
  | AttributeError
  | ValueError
  | OverflowError
  | ZeroDivisionError

datatype exn = Exn (exn_class: exc_class) (str_exn: string) (exn_response: "response option")

text \<open>
  What a call does: it returns a value, raises, or never comes back because the remote
  side did not answer within the scripted part of the run.
\<close>

datatype 'a result = Returned 'a | Raised exn | Blocked

section \<open>Rendering numbers\<close>

definition digit_char :: "nat \<Rightarrow> char" where
  "digit_char d = char_of (48 + d)"

fun show_nat :: "nat \<Rightarrow> string" where
  "show_nat n = (if n < 10 then [digit_char n] else show_nat (n div 10) @ [digit_char (n mod 10)])"

declare show_nat.simps [simp del]

definition show_int :: "int \<Rightarrow> string" where
  "show_int i = (if i < 0 then CHR ''-'' # show_nat (nat (- i)) else show_nat (nat i))"

section \<open>The bounded window: \<^verbatim>\<open>collections.deque(maxlen=...)\<close>\<close>

text \<open>
  \<^verbatim>\<open>deque(maxlen=n)\<close> converts the bound to a C \<^verbatim>\<open>Py_ssize_t\<close> (64 bits on the
  platforms CPython is built for today), which raises \<^verbatim>\<open>OverflowError\<close> for an integer
  outside \<open>- 2 ^ 63 \<dots> 2 ^ 63 - 1\<close>; it then refuses a negative bound with a
  \<^verbatim>\<open>ValueError\<close> and accepts zero.  \<^verbatim>\<open>append\<close> adds on the right and, when the
  bound is exceeded, drops the leftmost element; with bound zero the appended
  element itself is dropped.
\<close>

record 'a deque =
  items :: "'a list"
  maxlen :: nat

definition deque_new :: "int \<Rightarrow> exn + 'a deque" where
  "deque_new n =
     (if n < - (2 ^ 63) \<or> 2 ^ 63 \<le> n
      then Inl (Exn OverflowError ''Python int too large to convert to C ssize_t'' None)
      else if n < 0 then Inl (Exn ValueError ''maxlen must be non-negative'' None)
      else Inr \<lparr>items = [], maxlen = nat n\<rparr>)"

definition deque_append :: "'a deque \<Rightarrow> 'a \<Rightarrow> 'a deque" where
  "deque_append d x =
     (let xs = items d @ [x]
      in d\<lparr>items := (if maxlen d < length xs then tl xs else xs)\<rparr>)"

section \<open>The retry policy\<close>

text \<open>
  Modelled from the spec: \<^verbatim>\<open>wait_exponential\<close> belongs to the tenacity library, which
  is not under src/.  The spec gives the delay after the attempt numbered \<open>attempt\<close>
  as \<open>min(ceiling, base * 2^(attempt-1))\<close>; the lower bound \<^verbatim>\<open>min=1\<close> that both
  decorators pass is applied as well.  Attempts are numbered from 1.
\<close>

definition wait_exponential :: "int \<Rightarrow> int \<Rightarrow> int \<Rightarrow> nat \<Rightarrow> int" where
  "wait_exponential multiplier lo hi attempt =
     max (max 0 lo) (min (multiplier * 2 ^ (attempt - 1)) hi)"

text \<open>Lines 44 and 67: \<^verbatim>\<open>wait_exponential(multiplier=1, min=1, max=900)\<close>.\<close>

definition retry_wait :: "nat \<Rightarrow> int" where
  "retry_wait attempt = wait_exponential 1 1 900 attempt"

text \<open>Lines 44 and 67: \<^verbatim>\<open>retry_if_exception_type((requests.RequestException,))\<close>.\<close>

definition retry_if_exception_type :: "exn \<Rightarrow> bool" where
  "retry_if_exception_type e = (exn_class e = RequestException)"

section \<open>Python numbers\<close>

text \<open>
  A Python \<^verbatim>\<open>int\<close> is an unbounded integer.  A \<^verbatim>\<open>float\<close> is a binary64 value: a finite
  one, given by the real number it is, an infinity or NaN.  An operation on floats gives
  the float nearest to the exact result, the one with the even significand when two are
  equally near, and an infinity when that float would reach \<open>2 ^ 1024\<close>.
\<close>

datatype double = Finite real | NonFinite special

datatype number = PyInt int | PyFloat double

text \<open>The literal \<^verbatim>\<open>0\<close> of line 113 is the integer zero.\<close>

instantiation number :: zero
begin

definition zero_number :: number where
  "zero_number = PyInt 0"

instance ..

end

definition round_half_even :: "real \<Rightarrow> int" where
  "round_half_even x =
     (let f = \<lfloor>x\<rfloor>; r = x - of_int f
      in if r < 1 / 2 then f else if 1 / 2 < r then f + 1 else if even f then f else f + 1)"

text \<open>\<open>ilog2 n\<close> is the position of the leading bit of \<open>n \<ge> 1\<close>; \<open>exponent a\<close> is, for
  \<open>a > 0\<close>, the \<open>e\<close> with \<open>2 ^ e \<le> a < 2 ^ (e + 1)\<close>.\<close>

fun ilog2 :: "nat \<Rightarrow> nat" where
  "ilog2 n = (if n < 2 then 0 else Suc (ilog2 (n div 2)))"

declare ilog2.simps [simp del]

definition pow2 :: "int \<Rightarrow> real" where
  "pow2 e = (if 0 \<le> e then 2 ^ nat e else 1 / 2 ^ nat (- e))"

definition exponent :: "real \<Rightarrow> int" where
  "exponent a =
     (if 1 \<le> a then int (ilog2 (nat \<lfloor>a\<rfloor>))
      else (let k = int (ilog2 (nat \<lfloor>1 / a\<rfloor>))
            in if a * 2 ^ nat k = 1 then - k else - k - 1))"

text \<open>
  The float nearest to a real.  A float has 53 significant bits, so the floats around
  \<open>x\<close> are the multiples of \<open>2 ^ (e - 52)\<close>, where \<open>e\<close> is the exponent of \<open>x\<close> and at
  least \<open>- 1022\<close> (below that the floats are equally spaced).
\<close>

definition round_double :: "real \<Rightarrow> double" where
  "round_double x =
     (if x = 0 then Finite 0
      else (let e = max (exponent \<bar>x\<bar>) (- 1022);
                ulp = pow2 (e - 52);
                y = of_int (round_half_even (x / ulp)) * ulp
            in if 2 ^ 1024 \<le> \<bar>y\<bar> then NonFinite (if 0 < x then PosInf else NegInf)
               else Finite y))"

text \<open>\<^verbatim>\<open>float(i)\<close> for an integer, as every mixed operation does it first.\<close>

definition int_to_double :: "int \<Rightarrow> exn + real" where
  "int_to_double i =
     (case round_double (of_int i) of
        Finite y \<Rightarrow> Inr y
      | NonFinite _ \<Rightarrow> Inl (Exn OverflowError ''int too large to convert to float'' None))"

fun double_add :: "double \<Rightarrow> double \<Rightarrow> double" where
  "double_add (Finite x) (Finite y) = round_double (x + y)"
| "double_add (NonFinite NaN) _ = NonFinite NaN"
| "double_add _ (NonFinite NaN) = NonFinite NaN"
| "double_add (NonFinite PosInf) (NonFinite NegInf) = NonFinite NaN"
| "double_add (NonFinite NegInf) (NonFinite PosInf) = NonFinite NaN"
| "double_add (NonFinite s) _ = NonFinite s"
| "double_add _ (NonFinite s) = NonFinite s"

text \<open>A float divided by a finite float \<open>y\<close> (the program divides by a length only).\<close>

definition double_div :: "double \<Rightarrow> real \<Rightarrow> exn + double" where
  "double_div a y =
     (if y = 0 then Inl (Exn ZeroDivisionError ''float division by zero'' None)
      else Inr (case a of
                  Finite x \<Rightarrow> round_double (x / y)
                | NonFinite NaN \<Rightarrow> NonFinite NaN
                | NonFinite PosInf \<Rightarrow> NonFinite (if 0 < y then PosInf else NegInf)
                | NonFinite NegInf \<Rightarrow> NonFinite (if 0 < y then NegInf else PosInf)))"

text \<open>\<^verbatim>\<open>a + b\<close> for two numbers: exact on integers, in floats as soon as one is a float.\<close>

fun number_add :: "number \<Rightarrow> number \<Rightarrow> exn + number" where
  "number_add (PyInt a) (PyInt b) = Inr (PyInt (a + b))"
| "number_add (PyInt a) (PyFloat y) =
     (case int_to_double a of Inl e \<Rightarrow> Inl e | Inr x \<Rightarrow> Inr (PyFloat (double_add (Finite x) y)))"
| "number_add (PyFloat x) (PyInt b) =
     (case int_to_double b of Inl e \<Rightarrow> Inl e | Inr y \<Rightarrow> Inr (PyFloat (double_add x (Finite y))))"
| "number_add (PyFloat x) (PyFloat y) = Inr (PyFloat (double_add x y))"

text \<open>\<^verbatim>\<open>a / n\<close> for a number and an integer: always a float; the quotient of two
  integers is the float nearest to the exact quotient.\<close>

definition zero_division :: exn where
  "zero_division = Exn ZeroDivisionError ''division by zero'' None"

fun truediv :: "number \<Rightarrow> int \<Rightarrow> exn + number" where
  "truediv (PyInt a) n =
     (if n = 0 then Inl zero_division
      else (case round_double (of_int a / of_int n) of
              Finite q \<Rightarrow> Inr (PyFloat (Finite q))
            | NonFinite _ \<Rightarrow>
                Inl (Exn OverflowError ''integer division result too large for a float'' None)))"
| "truediv (PyFloat x) n =
     (case int_to_double n of
        Inl e \<Rightarrow> Inl e
      | Inr y \<Rightarrow> (case double_div x y of Inl e \<Rightarrow> Inl e | Inr q \<Rightarrow> Inr (PyFloat q)))"

section \<open>Python operations on decoded JSON\<close>

definition type_name :: "json \<Rightarrow> string" where
  "type_name v =
     (case v of JNull \<Rightarrow> ''NoneType'' | JBool _ \<Rightarrow> ''bool'' | JInt _ \<Rightarrow> ''int''
      | JFloat _ \<Rightarrow> ''float'' | JNonFinite _ \<Rightarrow> ''float'' | JStr _ \<Rightarrow> ''str''
      | JArr _ \<Rightarrow> ''list'' | JObj _ \<Rightarrow> ''dict'')"

text \<open>A word between single quotes, as Python's messages and \<^verbatim>\<open>repr\<close> show names
  and keys (keys that themselves contain quotes or escapes are rendered by Python in
  other ways; not modelled).\<close>

definition quoted :: "string \<Rightarrow> string" where
  "quoted k = CHR 0x27 # k @ [CHR 0x27]"

text \<open>\<^verbatim>\<open>v[k]\<close> for a string \<open>k\<close>: only a dict has string keys.\<close>

definition subscript :: "json \<Rightarrow> string \<Rightarrow> exn + json" where
  "subscript v k =
     (case v of
        JObj kvs \<Rightarrow> (case map_of kvs k of
                       None \<Rightarrow> Inl (Exn KeyError (quoted k) None)
                     | Some x \<Rightarrow> Inr x)
      | JArr _ \<Rightarrow> Inl (Exn TypeError ''list indices must be integers or slices, not str'' None)
      | JStr _ \<Rightarrow> Inl (Exn TypeError (''string indices must be integers, not '' @ quoted ''str'') None)
      | _ \<Rightarrow> Inl (Exn TypeError (quoted (type_name v) @ '' object is not subscriptable'') None))"

text \<open>\<^verbatim>\<open>v.get(k, dflt)\<close>: only a dict has the method.\<close>

definition dict_get :: "json \<Rightarrow> string \<Rightarrow> json \<Rightarrow> exn + json" where
  "dict_get v k dflt =
     (case v of
        JObj kvs \<Rightarrow> (case map_of kvs k of None \<Rightarrow> Inr dflt | Some x \<Rightarrow> Inr x)
      | _ \<Rightarrow> Inl (Exn AttributeError
                 (quoted (type_name v) @ '' object has no attribute '' @ quoted ''get'') None))"

text \<open>\<^verbatim>\<open>str.upper\<close> and \<^verbatim>\<open>str.lower\<close> on the ASCII letters; other bytes are kept.\<close>

definition upper_char :: "char \<Rightarrow> char" where
  "upper_char c =
     (if (97::nat) \<le> of_char c \<and> of_char c \<le> (122::nat) then char_of (of_char c - (32::nat)) else c)"

definition lower_char :: "char \<Rightarrow> char" where
  "lower_char c =
     (if (65::nat) \<le> of_char c \<and> of_char c \<le> (90::nat) then char_of (of_char c + (32::nat)) else c)"

definition upper :: "json \<Rightarrow> exn + string" where
  "upper v =
     (case v of
        JStr s \<Rightarrow> Inr (map upper_char s)
      | _ \<Rightarrow> Inl (Exn AttributeError
                 (quoted (type_name v) @ '' object has no attribute '' @ quoted ''upper'') None))"

text \<open>The numbers among the JSON values (\<^verbatim>\<open>bool\<close> is a subclass of \<^verbatim>\<open>int\<close>).\<close>

definition as_number :: "json \<Rightarrow> number option" where
  "as_number v =
     (case v of
        JInt i \<Rightarrow> Some (PyInt i)
      | JBool b \<Rightarrow> Some (PyInt (if b then 1 else 0))
      | JFloat x \<Rightarrow> Some (PyFloat (Finite x))
      | JNonFinite sp \<Rightarrow> Some (PyFloat (NonFinite sp))
      | _ \<Rightarrow> None)"

definition number_type :: "number \<Rightarrow> string" where
  "number_type a = (case a of PyInt _ \<Rightarrow> ''int'' | PyFloat _ \<Rightarrow> ''float'')"

text \<open>
  \<^verbatim>\<open>sum(prices)\<close>: the total starts at the integer 0 and the elements are added from
  the left, each addition rounded as \<^verbatim>\<open>+\<close> rounds it (CPython up to 3.11; from 3.12
  on \<^verbatim>\<open>sum\<close> carries a correction term for floats, which can change the last bit of
  the total).  Adding something that is not a number raises \<^verbatim>\<open>TypeError\<close>.
\<close>

fun sum_from :: "number \<Rightarrow> json list \<Rightarrow> exn + number" where
  "sum_from acc [] = Inr acc"
| "sum_from acc (v # vs) =
     (case as_number v of
        None \<Rightarrow> Inl (Exn TypeError
                 (''unsupported operand type(s) for +: '' @ quoted (number_type acc)
                    @ '' and '' @ quoted (type_name v)) None)
      | Some x \<Rightarrow> (case number_add acc x of Inl e \<Rightarrow> Inl e | Inr acc' \<Rightarrow> sum_from acc' vs))"

definition py_sum :: "json list \<Rightarrow> exn + number" where
  "py_sum vs = sum_from (PyInt 0) vs"

subsection \<open>The format specification \<^verbatim>\<open>,.2f\<close>\<close>

text \<open>Groups of three digits from the right, separated by commas.\<close>

fun commas :: "string \<Rightarrow> string" where
  "commas ds =
     (if length ds \<le> 3 then ds
      else commas (take (length ds - 3) ds) @ CHR '','' # drop (length ds - 3) ds)"

declare commas.simps [simp del]

definition format_2f :: "real \<Rightarrow> string" where
  "format_2f x =
     (let c = nat (round_half_even (\<bar>x\<bar> * 100))
      in (if x < 0 then ''-'' else []) @ commas (show_nat (c div 100)) @ ''.''
           @ [digit_char (c div 10 mod 10), digit_char (c mod 10)])"

text \<open>\<open>format_2f x\<close> is the text of a finite float, from its exact value.  An integer is
  converted to a float first.\<close>

definition format_double :: "double \<Rightarrow> string" where
  "format_double a =
     (case a of Finite x \<Rightarrow> format_2f x | NonFinite PosInf \<Rightarrow> ''inf''
      | NonFinite NegInf \<Rightarrow> ''-inf'' | NonFinite NaN \<Rightarrow> ''nan'')"

definition format_number :: "number \<Rightarrow> exn + string" where
  "format_number a =
     (case a of
        PyFloat x \<Rightarrow> Inr (format_double x)
      | PyInt i \<Rightarrow> (case int_to_double i of Inl e \<Rightarrow> Inl e | Inr x \<Rightarrow> Inr (format_2f x)))"

text \<open>\<^verbatim>\<open>f"{price:,.2f}"\<close> for a decoded JSON value.\<close>

definition format_price :: "json \<Rightarrow> exn + string" where
  "format_price v =
     (case as_number v of
        Some a \<Rightarrow> format_number a
      | None \<Rightarrow>
          (case v of
             JStr _ \<Rightarrow> Inl (Exn ValueError
                         (''Unknown format code '' @ quoted ''f'' @ '' for object of type ''
                            @ quoted ''str'') None)
           | _ \<Rightarrow> Inl (Exn TypeError
                      (''unsupported format string passed to '' @ type_name v @ ''.__format__'') None)))"

subsection \<open>Timestamps\<close>

text \<open>The proleptic Gregorian date of a day counted from 1970-01-01.\<close>

definition civil_from_days :: "int \<Rightarrow> int \<times> int \<times> int" where
  "civil_from_days days =
     (let z = days + 719468;
          era = z div 146097;
          doe = z mod 146097;
          yoe = (doe - doe div 1460 + doe div 36524 - doe div 146096) div 365;
          y = yoe + era * 400;
          doy = doe - (365 * yoe + yoe div 4 - yoe div 100);
          mp = (5 * doy + 2) div 153;
          d = doy - (153 * mp + 2) div 5 + 1;
          m = (if mp < 10 then mp + 3 else mp - 9)
      in (if m \<le> 2 then y + 1 else y, m, d))"

record datetime =
  year :: int
  month :: int
  day :: int
  hour :: int
  minute :: int
  second :: int

text \<open>
  \<^verbatim>\<open>datetime.fromtimestamp(ts_unix, tz=timezone.utc)\<close>, microseconds left out (the
  program never shows them).  A float is rounded half-even to microseconds first.
  \<^verbatim>\<open>datetime\<close> holds the years 1 to 9999; a timestamp outside is refused (by
  \<^verbatim>\<open>ValueError\<close>, \<^verbatim>\<open>OverflowError\<close> or \<^verbatim>\<open>OSError\<close> as its size has it: all of
  them outside \<^verbatim>\<open>RequestException\<close>, and shown here as \<open>ValueError\<close>).
\<close>

definition utc_of_seconds :: "int \<Rightarrow> exn + datetime" where
  "utc_of_seconds t =
     (case civil_from_days (t div 86400) of
        (y, m, d) \<Rightarrow>
          if y < 1 \<or> 9999 < y
          then Inl (Exn ValueError (''year '' @ show_int y @ '' is out of range'') None)
          else Inr \<lparr>year = y, month = m, day = d, hour = t mod 86400 div 3600,
                    minute = t mod 3600 div 60, second = t mod 60\<rparr>)"

definition fromtimestamp_utc :: "json \<Rightarrow> exn + datetime" where
  "fromtimestamp_utc v =
     (case v of
        JInt t \<Rightarrow> utc_of_seconds t
      | JBool b \<Rightarrow> utc_of_seconds (if b then 1 else 0)
      | JFloat x \<Rightarrow> utc_of_seconds (round_half_even (x * 1000000) div 1000000)
      | JNonFinite NaN \<Rightarrow> Inl (Exn ValueError ''cannot convert float NaN to integer'' None)
      | JNonFinite _ \<Rightarrow> Inl (Exn OverflowError ''cannot convert float infinity to integer'' None)
      | _ \<Rightarrow> Inl (Exn TypeError
                 (quoted (type_name v) @ '' object cannot be interpreted as an integer'') None))"

definition pad2 :: "int \<Rightarrow> string" where
  "pad2 n = [digit_char (nat n div 10 mod 10), digit_char (nat n mod 10)]"

definition pad4 :: "int \<Rightarrow> string" where
  "pad4 n = [digit_char (nat n div 1000 mod 10), digit_char (nat n div 100 mod 10),
             digit_char (nat n div 10 mod 10), digit_char (nat n mod 10)]"

text \<open>\<^verbatim>\<open>strftime("%Y-%m-%dT%H:%M:%S")\<close>.\<close>

definition strftime :: "datetime \<Rightarrow> string" where
  "strftime t =
     pad4 (year t) @ ''-'' @ pad2 (month t) @ ''-'' @ pad2 (day t) @ ''T''
       @ pad2 (hour t) @ '':'' @ pad2 (minute t) @ '':'' @ pad2 (second t)"

section \<open>The process and its environment\<close>

text \<open>
  Everything the program does that can be seen from outside is an event, and a run
  leaves the list of its events, oldest first.
\<close>

datatype event =
    Call string "(string \<times> string) list"
  | Sleep int
  | LogInfo string
  | LogError json
  | Print string

text \<open>
  \<open>Call u params\<close> is \<^verbatim>\<open>session.get(u, params=params)\<close> being issued, \<open>Sleep n\<close> a wait
  of \<open>n\<close> seconds, \<open>LogError m\<close> is \<^verbatim>\<open>logging.error(m)\<close> (the line shows
  \<^verbatim>\<open>str(m)\<close>), \<open>Print l\<close> a line on standard output.

  The environment is scripted.  \<open>remote\<close> lists what the next calls of
  \<^verbatim>\<open>session.get\<close> will do, one entry per call: raise a
  \<^verbatim>\<open>requests.RequestException\<close> with the given text and no response, or return a
  response.  A call made when the script is used up never returns (\<open>Blocked\<close>).
  \<open>signals\<close> says, for each coming read of the global \<^verbatim>\<open>shutdown_requested\<close>,
  whether SIGINT reached the process since the read before; when the list is used
  up no further signal arrives.  A signal has no effect but that of
  \<^verbatim>\<open>signal_handler\<close>, and that effect shows at the next read of the flag, so the
  handler is run there.  The globals \<^verbatim>\<open>current_retry\<close> and
  \<^verbatim>\<open>current_exception\<close> are never written (\<^verbatim>\<open>update_retry_info\<close> assigns locals
  of the same names) and never read: they are not part of the state.
\<close>

datatype outcome = NetworkError string | Response response

record state =
  shutdown_requested :: bool
  signals :: "bool list"
  remote :: "outcome list"
  trace :: "event list"

definition emit :: "event \<Rightarrow> state \<Rightarrow> state" where
  "emit e s = s\<lparr>trace := trace s @ [e]\<rparr>"

definition shutting_down :: string where
  "shutting_down = ''Shutting down'' @ [CHR 0xE2, CHR 0x80, CHR 0xA6]"

text \<open>Lines 39 to 42.\<close>

definition signal_handler :: "state \<Rightarrow> state" where
  "signal_handler s = emit (LogInfo shutting_down) (s\<lparr>shutdown_requested := True\<rparr>)"

definition deliver_sigint :: "state \<Rightarrow> state" where
  "deliver_sigint s =
     (case signals s of
        [] \<Rightarrow> s
      | b # bs \<Rightarrow> (if b then signal_handler (s\<lparr>signals := bs\<rparr>) else s\<lparr>signals := bs\<rparr>))"

definition URL :: string where
  "URL = ''https://api.coingecko.com/api/v3''"

definition session_get :: "string \<Rightarrow> (string \<times> string) list \<Rightarrow> state \<Rightarrow> response result \<times> state" where
  "session_get u params s =
     (let s1 = emit (Call u params) s
      in case remote s1 of
           [] \<Rightarrow> (Blocked, s1)
         | NetworkError m # rest \<Rightarrow> (Raised (Exn RequestException m None), s1\<lparr>remote := rest\<rparr>)
         | Response r # rest \<Rightarrow> (Returned r, s1\<lparr>remote := rest\<rparr>))"

text \<open>\<^verbatim>\<open>response.raise_for_status()\<close>: an \<^verbatim>\<open>HTTPError\<close> that carries the response, for
  the statuses 400 to 599.\<close>

definition raise_for_status :: "response \<Rightarrow> exn + unit" where
  "raise_for_status r =
     (if 400 \<le> status_code r \<and> status_code r < 500
      then Inl (Exn RequestException
                 (show_int (status_code r) @ '' Client Error: '' @ reason r @ '' for url: '' @ url r)
                 (Some r))
      else if 500 \<le> status_code r \<and> status_code r < 600
      then Inl (Exn RequestException
                 (show_int (status_code r) @ '' Server Error: '' @ reason r @ '' for url: '' @ url r)
                 (Some r))
      else Inr ())"

text \<open>\<^verbatim>\<open>response.json()\<close>: \<^verbatim>\<open>requests.exceptions.JSONDecodeError\<close>, a
  \<^verbatim>\<open>RequestException\<close> without response, when the body is not JSON.\<close>

definition response_json :: "response \<Rightarrow> exn + json" where
  "response_json r =
     (case json_body r of Inl m \<Rightarrow> Inl (Exn RequestException m None) | Inr v \<Rightarrow> Inr v)"

subsection \<open>\<^verbatim>\<open>update_retry_info\<close>, lines 24 to 37\<close>

text \<open>Line 34: \<^verbatim>\<open>current_exception.response.json().get("status", {}).get("error_message",
  str(current_exception))\<close>.  An exception without response has \<^verbatim>\<open>None\<close> there.\<close>

definition error_message_of :: "exn \<Rightarrow> exn + json" where
  "error_message_of current_exception =
     (case exn_response current_exception of
        None \<Rightarrow> Inl (Exn AttributeError
                   (quoted ''NoneType'' @ '' object has no attribute '' @ quoted ''json'') None)
      | Some r \<Rightarrow>
          (case response_json r of
             Inl e \<Rightarrow> Inl e
           | Inr body \<Rightarrow>
               (case dict_get body ''status'' (JObj []) of
                  Inl e \<Rightarrow> Inl e
                | Inr status \<Rightarrow> dict_get status ''error_message'' (JStr (str_exn current_exception)))))"

text \<open>The hook gets the number of the attempt that has just failed and its exception.
  What the \<^verbatim>\<open>try\<close> block raises is raised again.\<close>

definition update_retry_info :: "nat \<Rightarrow> exn \<Rightarrow> state \<Rightarrow> unit result \<times> state" where
  "update_retry_info current_retry current_exception s =
     (if current_retry \<noteq> 0 \<and> current_retry mod 5 = 0
      then (case error_message_of current_exception of
              Inl e \<Rightarrow> (Raised e, s)
            | Inr error_msg \<Rightarrow> (Returned (), emit (LogError error_msg) s))
      else (Returned (), s))"

subsection \<open>The decorated functions\<close>

text \<open>
  \<^verbatim>\<open>get_coin_symbol\<close> and \<^verbatim>\<open>fetch_price\<close> have one shape: read the flag and raise
  \<^verbatim>\<open>ShutdownRequested\<close> when it is set (lines 56, 57 and 78, 79), issue one
  \<^verbatim>\<open>session.get\<close> (lines 60 and 86), then work on the response without any further
  effect.  \<open>attempt\<close> is one call of such a function.
\<close>

definition attempt ::
  "string \<Rightarrow> (string \<times> string) list \<Rightarrow> (response \<Rightarrow> exn + 'a) \<Rightarrow> state \<Rightarrow> 'a result \<times> state" where
  "attempt u params decode s =
     (let s1 = deliver_sigint s
      in if shutdown_requested s1
         then (Raised (Exn ShutdownRequested ''Shutdown requested, aborting fetch.'' None), s1)
         else (case session_get u params s1 of
                 (Returned r, s2) \<Rightarrow>
                   (case decode r of Inl e \<Rightarrow> (Raised e, s2) | Inr v \<Rightarrow> (Returned v, s2))
               | (Raised e, s2) \<Rightarrow> (Raised e, s2)
               | (Blocked, s2) \<Rightarrow> (Blocked, s2)))"

lemma emit_fields [simp]:
  "remote (emit e s) = remote s" "signals (emit e s) = signals s"
  "shutdown_requested (emit e s) = shutdown_requested s" "trace (emit e s) = trace s @ [e]"
  by (simp_all add: emit_def)

lemma deliver_sigint_remote [simp]: "remote (deliver_sigint s) = remote s"
  by (simp add: deliver_sigint_def signal_handler_def split: list.splits)

lemma update_retry_info_remote:
  "update_retry_info n e s = (r, s') \<Longrightarrow> remote s' = remote s"
  by (auto simp: update_retry_info_def split: if_splits sum.splits)

lemma session_get_remote:
  "session_get u params s = (r, s') \<Longrightarrow>
     (if r = Blocked then remote s' = remote s else Suc (length (remote s')) = length (remote s))"
  by (auto simp: session_get_def Let_def split: list.splits outcome.splits)

lemma attempt_remote:
  "attempt u params decode s = (r, s') \<Longrightarrow>
     (remote s' = remote s \<and> (r = Blocked \<or> (\<exists>e. r = Raised e \<and> exn_class e = ShutdownRequested)))
     \<or> Suc (length (remote s')) = length (remote s)"
  unfolding attempt_def Let_def
  by (auto split: if_splits prod.splits result.splits sum.splits dest!: session_get_remote)

text \<open>
  The decorator of lines 44 and 67 (tenacity's \<^verbatim>\<open>retry\<close>, with no \<^verbatim>\<open>stop\<close>): call
  the function; a value is returned; an exception outside \<^verbatim>\<open>RequestException\<close> is
  raised again; otherwise the wait is computed from the number of the failed
  attempt, the \<^verbatim>\<open>before_sleep\<close> hook runs (what it raises leaves the loop), the
  process sleeps, and the next attempt starts.
\<close>

function retry ::
  "string \<Rightarrow> (string \<times> string) list \<Rightarrow> (response \<Rightarrow> exn + 'a) \<Rightarrow> nat \<Rightarrow> state \<Rightarrow> 'a result \<times> state" where
  "retry u params decode attempt_number s =
     (case attempt u params decode s of
        (Raised e, s1) \<Rightarrow>
          if retry_if_exception_type e
          then (case update_retry_info attempt_number e s1 of
                  (Returned _, s2) \<Rightarrow>
                    retry u params decode (Suc attempt_number)
                      (emit (Sleep (retry_wait attempt_number)) s2)
                | (Raised e', s2) \<Rightarrow> (Raised e', s2)
                | (Blocked, s2) \<Rightarrow> (Blocked, s2))
          else (Raised e, s1)
      | (Returned v, s1) \<Rightarrow> (Returned v, s1)
      | (Blocked, s1) \<Rightarrow> (Blocked, s1))"
  by pat_completeness auto
termination
proof (relation "measure (\<lambda>(u, params, decode, n, s). length (remote s))", goal_cases)
  case 1
  show ?case by simp
next
  case (2 u params decode n s x1 s1 e x2 s2 x)
  from 2(1)[symmetric] 2(2) 2(3) have "length (remote s1) < length (remote s)"
    by (auto simp: retry_if_exception_type_def dest!: attempt_remote)
  moreover from 2(4)[symmetric] have "remote s2 = remote s1"
    by (rule update_retry_info_remote)
  ultimately show ?case by simp
qed

declare retry.simps [simp del]

lemma retry_remote:
  "retry u params decode n s = (r, s') \<Longrightarrow>
     length (remote s') \<le> length (remote s)
     \<and> ((\<exists>v. r = Returned v) \<longrightarrow> length (remote s') < length (remote s))"
proof (induction u params decode n s arbitrary: r s' rule: retry.induct)
  case (1 u params decode n s)
  obtain a s1 where att: "attempt u params decode s = (a, s1)"
    by (cases "attempt u params decode s")
  note rem = attempt_remote [OF att]
  show ?case
  proof (cases a)
    case (Returned v)
    with att "1.prems" rem show ?thesis
      by (auto simp: retry.simps [of u params decode n s])
  next
    case Blocked
    with att "1.prems" rem show ?thesis
      by (auto simp: retry.simps [of u params decode n s])
  next
    case (Raised e)
    show ?thesis
    proof (cases "retry_if_exception_type e")
      case False
      with Raised att "1.prems" rem show ?thesis
        by (auto simp: retry.simps [of u params decode n s])
    next
      case True
      obtain h s2 where hook: "update_retry_info n e s1 = (h, s2)"
        by (cases "update_retry_info n e s1")
      have s2: "remote s2 = remote s1"
        using hook by (rule update_retry_info_remote)
      from True Raised rem have lt: "length (remote s1) < length (remote s)"
        by (auto simp: retry_if_exception_type_def)
      show ?thesis
      proof (cases h)
        case (Returned x)
        with True Raised att hook "1.prems"
        have "retry u params decode (Suc n) (emit (Sleep (retry_wait n)) s2) = (r, s')"
          by (simp add: retry.simps [of u params decode n s])
        from "1.IH" [OF att [symmetric] Raised True hook [symmetric] Returned this]
        show ?thesis using lt s2 by auto
      next
        case (Raised e')
        with True \<open>a = Raised e\<close> att hook "1.prems" lt s2 show ?thesis
          by (auto simp: retry.simps [of u params decode n s])
      next
        case Blocked
        with True \<open>a = Raised e\<close> att hook "1.prems" lt s2 show ?thesis
          by (auto simp: retry.simps [of u params decode n s])
      qed
    qed
  qed
qed

text \<open>Lines 61 to 65: what \<^verbatim>\<open>get_coin_symbol\<close> does with the response.\<close>

definition coin_symbol_of_response :: "response \<Rightarrow> exn + string" where
  "coin_symbol_of_response response =
     (if status_code response = 404 then Inl (Exn PlainException (body_text response) None)
      else case raise_for_status response of
             Inl e \<Rightarrow> Inl e
           | Inr _ \<Rightarrow>
               (case response_json response of
                  Inl e \<Rightarrow> Inl e
                | Inr coin_data \<Rightarrow>
                    (case subscript coin_data ''symbol'' of
                       Inl e \<Rightarrow> Inl e
                     | Inr symbol \<Rightarrow> upper symbol)))"

definition get_coin_symbol :: "string \<Rightarrow> state \<Rightarrow> string result \<times> state" where
  "get_coin_symbol coin_name s = retry (URL @ ''/coins/'' @ coin_name) [] coin_symbol_of_response 1 s"

text \<open>Lines 87 to 93: what \<^verbatim>\<open>fetch_price\<close> does with the response.  The price is
  handed on as it was decoded; the timestamp is rendered.\<close>

definition price_of_response :: "string \<Rightarrow> response \<Rightarrow> exn + json \<times> string" where
  "price_of_response coin response =
     (case raise_for_status response of
        Inl e \<Rightarrow> Inl e
      | Inr _ \<Rightarrow>
          (case response_json response of
             Inl e \<Rightarrow> Inl e
           | Inr data \<Rightarrow>
               (case subscript data coin of
                  Inl e \<Rightarrow> Inl e
                | Inr entry \<Rightarrow>
                    (case subscript entry ''usd'' of
                       Inl e \<Rightarrow> Inl e
                     | Inr price \<Rightarrow>
                         (case subscript entry ''last_updated_at'' of
                            Inl e \<Rightarrow> Inl e
                          | Inr ts_unix \<Rightarrow>
                              (case fromtimestamp_utc ts_unix of
                                 Inl e \<Rightarrow> Inl e
                               | Inr timestamp \<Rightarrow> Inr (price, strftime timestamp)))))))"

definition price_params :: "string \<Rightarrow> (string \<times> string) list" where
  "price_params coin =
     [(''ids'', coin), (''vs_currencies'', ''usd''), (''include_last_updated_at'', ''true'')]"

definition fetch_price :: "string \<Rightarrow> state \<Rightarrow> (json \<times> string) result \<times> state" where
  "fetch_price coin s = retry (URL @ ''/simple/price'') (price_params coin) (price_of_response coin) 1 s"

subsection \<open>\<^verbatim>\<open>main\<close>, lines 96 to 115\<close>

text \<open>Line 113: \<^verbatim>\<open>sum(prices) / len(prices) if prices else 0\<close>.\<close>

definition sma_of :: "json deque \<Rightarrow> exn + number" where
  "sma_of prices =
     (if items prices \<noteq> []
      then (case py_sum (items prices) of
              Inl e \<Rightarrow> Inl e
            | Inr total_price \<Rightarrow> truediv total_price (int (length (items prices))))
      else Inr (PyInt 0))"

definition arrow :: string where
  "arrow = [CHR 0xE2, CHR 0x86, CHR 0x92]"

text \<open>Line 114: the text of the printed line.\<close>

definition output_line :: "string \<Rightarrow> string \<Rightarrow> json \<Rightarrow> nat \<Rightarrow> number \<Rightarrow> exn + string" where
  "output_line timestamp coin_symbol price n sma =
     (case format_price price of
        Inl e \<Rightarrow> Inl e
      | Inr p \<Rightarrow>
          (case format_number sma of
             Inl e \<Rightarrow> Inl e
           | Inr a \<Rightarrow>
               Inr (''['' @ timestamp @ ''] '' @ coin_symbol @ '' '' @ arrow @ '' USD: $'' @ p
                      @ '': SMA('' @ show_nat n @ ''): $'' @ a)))"

text \<open>Lines 106 to 115: the loop.  An exception of \<^verbatim>\<open>fetch_price\<close> is logged and ends the
  loop; one raised after the \<^verbatim>\<open>try\<close> statement leaves \<^verbatim>\<open>main\<close>.\<close>

function poll :: "string \<Rightarrow> string \<Rightarrow> json deque \<Rightarrow> state \<Rightarrow> unit result \<times> state" where
  "poll coin coin_symbol prices s =
     (let s0 = deliver_sigint s
      in if shutdown_requested s0 then (Returned (), s0)
         else (case fetch_price coin s0 of
                 (Raised e, s1) \<Rightarrow> (Returned (), emit (LogError (JStr (str_exn e))) s1)
               | (Blocked, s1) \<Rightarrow> (Blocked, s1)
               | (Returned (price, timestamp), s1) \<Rightarrow>
                   (let prices' = deque_append prices price
                    in case sma_of prices' of
                         Inl e \<Rightarrow> (Raised e, s1)
                       | Inr sma \<Rightarrow>
                           (case output_line timestamp coin_symbol price (length (items prices')) sma of
                              Inl e \<Rightarrow> (Raised e, s1)
                            | Inr line \<Rightarrow>
                                poll coin coin_symbol prices' (emit (Sleep 1) (emit (Print line) s1))))))"
  by pat_completeness auto
termination
proof (relation "measure (\<lambda>(coin, coin_symbol, prices, s). length (remote s))", goal_cases)
  case 1
  show ?case by simp
next
  case (2 coin coin_symbol prices s s0 x1 s1 x2 price timestamp prices' sma line)
  from 2(3) [symmetric] 2(4) have "retry (URL @ ''/simple/price'') (price_params coin)
      (price_of_response coin) 1 s0 = (Returned x2, s1)"
    by (simp add: fetch_price_def)
  from retry_remote [OF this] have "length (remote s1) < length (remote s0)"
    by simp
  with 2(1) show ?case by simp
qed

declare poll.simps [simp del]

definition main :: "string \<Rightarrow> int \<Rightarrow> state \<Rightarrow> unit result \<times> state" where
  "main coin max_price_storage s =
     (case deque_new max_price_storage of
        Inl e \<Rightarrow> (Raised e, s)
      | Inr prices \<Rightarrow>
          (case get_coin_symbol coin s of
             (Returned coin_symbol, s1) \<Rightarrow> poll coin coin_symbol prices s1
           | (Raised e, s1) \<Rightarrow> (Raised e, s1)
           | (Blocked, s1) \<Rightarrow> (Blocked, s1)))"

text \<open>
  Lines 117 to 137, after the arguments are parsed: the handler is installed, the flag
  is false (line 12), the start is logged and \<^verbatim>\<open>main\<close> gets the coin's name in lower
  case.  An exception that leaves \<^verbatim>\<open>main\<close> ends the process with a traceback.
\<close>

definition initial :: "bool list \<Rightarrow> outcome list \<Rightarrow> state" where
  "initial sigs outs =
     \<lparr>shutdown_requested = False, signals = sigs, remote = outs,
      trace = [LogInfo ''Script is starting...'']\<rparr>"

definition script :: "string \<Rightarrow> int \<Rightarrow> bool list \<Rightarrow> outcome list \<Rightarrow> unit result \<times> state" where
  "script coin sma sigs outs = main (map lower_char coin) sma (initial sigs outs)"

section \<open>Properties of the window\<close>

lemma deque_append_maxlen [simp]: "maxlen (deque_append d x) = maxlen d"
  by (simp add: deque_append_def Let_def)

lemma foldl_deque_append_maxlen [simp]: "maxlen (foldl deque_append d vs) = maxlen d"
  by (induction vs arbitrary: d) simp_all

lemma window_step:
  fixes zs :: "'a list"
  shows "(let xs = drop (length zs - m) zs @ [x] in if m < length xs then tl xs else xs)
           = drop (length (zs @ [x]) - m) (zs @ [x])"
proof (cases "length zs < m")
  case True
  then show ?thesis by (simp add: Let_def)
next
  case False
  then have le: "m \<le> length zs" by simp
  then have len: "length (drop (length zs - m) zs) = m" by simp
  have suc: "Suc (length zs) - m = Suc (length zs - m)" using le by simp
  show ?thesis
  proof (cases "m = 0")
    case True
    then show ?thesis by (simp add: Let_def)
  next
    case False
    with le have ne: "drop (length zs - m) zs \<noteq> []" by simp
    then show ?thesis
      using le by (simp add: Let_def suc drop_Suc tl_drop)
  qed
qed

lemma items_foldl_deque_append:
  "items (foldl deque_append \<lparr>items = [], maxlen = m\<rparr> vs) = drop (length vs - m) vs"
proof (induction vs rule: rev_induct)
  case Nil
  then show ?case by simp
next
  case (snoc x xs)
  let ?e = "foldl deque_append \<lparr>items = [], maxlen = m\<rparr> xs"
  have m: "maxlen ?e = m" by simp
  have "items (foldl deque_append \<lparr>items = [], maxlen = m\<rparr> (xs @ [x])) = items (deque_append ?e x)"
    by simp
  also have "\<dots> = (let ys = items ?e @ [x] in if maxlen ?e < length ys then tl ys else ys)"
    by (simp add: deque_append_def Let_def)
  also have "\<dots> = (let ys = drop (length xs - m) xs @ [x] in if m < length ys then tl ys else ys)"
    unfolding m snoc.IH ..
  also have "\<dots> = drop (length (xs @ [x]) - m) (xs @ [x])"
    by (rule window_step)
  finally show ?case .
qed


lemma retry_step:
  assumes "attempt u params decode s = (Raised e, s1)" and "retry_if_exception_type e"
    and "update_retry_info n e s1 = (Returned (), s2)"
  shows "retry u params decode n s =
           retry u params decode (Suc n) (emit (Sleep (retry_wait n)) s2)"
  by (subst retry.simps) (simp add: assms)

lemma retry_wait_eq: "1 \<le> k \<Longrightarrow> retry_wait k = min 900 (2 ^ (k - 1))"
  by (simp add: retry_wait_def wait_exponential_def max_def min_def)

lemma retry_wait_le: "retry_wait k \<le> 900"
  by (simp add: retry_wait_def wait_exponential_def)

subsection \<open>Properties of the numbers\<close>

lemma ilog2_le: "0 < n \<Longrightarrow> 2 ^ ilog2 n \<le> n"
proof (induction n rule: ilog2.induct)
  case (1 n)
  show ?case
  proof (cases "n < 2")
    case True
    with "1.prems" show ?thesis by (simp add: ilog2.simps [of n])
  next
    case False
    then have "0 < n div 2" by simp
    from "1.IH" [OF False this] have "2 * 2 ^ ilog2 (n div 2) \<le> 2 * (n div 2)" by simp
    also have "\<dots> \<le> n" by simp
    finally show ?thesis using False by (simp add: ilog2.simps [of n])
  qed
qed

lemma round_half_even_pos: "1 \<le> z \<Longrightarrow> 1 \<le> round_half_even z"
proof -
  assume "1 \<le> z"
  then have "1 \<le> \<lfloor>z\<rfloor>" by simp
  then show ?thesis by (simp add: round_half_even_def Let_def)
qed

lemma pow2_pos: "0 < pow2 e"
  by (simp add: pow2_def)

lemma round_double_int_pos:
  assumes "0 < i" and "round_double (of_int i) = Finite y"
  shows "0 < y"
proof -
  let ?x = "of_int i :: real"
  let ?e = "int (ilog2 (nat i))"
  let ?ulp = "pow2 (?e - 52)"
  from assms(1) have x1: "1 \<le> ?x" by simp
  have ex: "exponent \<bar>?x\<bar> = ?e"
    using assms(1) by (simp add: exponent_def)
  have "(2::nat) ^ ilog2 (nat i) \<le> nat i"
    using assms(1) by (intro ilog2_le) simp
  then have "real ((2::nat) ^ ilog2 (nat i)) \<le> real (nat i)"
    by (rule iffD2 [OF of_nat_le_iff])
  then have low: "(2::real) ^ ilog2 (nat i) \<le> ?x"
    using assms(1) by simp
  have "?ulp \<le> 2 ^ ilog2 (nat i)"
  proof (cases "52 \<le> ?e")
    case True
    then have "?ulp = 2 ^ (ilog2 (nat i) - 52)"
      by (simp add: pow2_def nat_diff_distrib')
    then show ?thesis by simp
  next
    case False
    then have "?ulp = 1 / 2 ^ nat (52 - ?e)"
      by (simp add: pow2_def)
    also have "\<dots> \<le> 1" by simp
    also have "\<dots> \<le> 2 ^ ilog2 (nat i)" by simp
    finally show ?thesis .
  qed
  from this low have "?ulp \<le> ?x" by (rule order_trans)
  then have "1 \<le> ?x / ?ulp"
    using pow2_pos [of "?e - 52"] by (simp add: le_divide_eq)
  then have r: "1 \<le> round_half_even (?x / ?ulp)"
    by (rule round_half_even_pos)
  have "0 < of_int (round_half_even (?x / ?ulp)) * ?ulp"
    using r pow2_pos [of "?e - 52"] by simp
  moreover have "y = of_int (round_half_even (?x / ?ulp)) * ?ulp"
    using assms x1 ex by (simp add: round_double_def Let_def max_def split: if_splits)
  ultimately show ?thesis by simp
qed

lemma int_to_double_pos: "0 < i \<Longrightarrow> int_to_double i = Inr y \<Longrightarrow> 0 < y"
  by (auto simp: int_to_double_def split: double.splits dest: round_double_int_pos)

lemma int_to_double_error: "int_to_double i = Inl e \<Longrightarrow> exn_class e = OverflowError"
  by (auto simp: int_to_double_def split: double.splits)

lemma number_add_error: "number_add a b = Inl e \<Longrightarrow> exn_class e = OverflowError"
  by (cases a; cases b) (auto split: sum.splits dest: int_to_double_error)

lemma sum_from_error:
  "sum_from acc js = Inl e \<Longrightarrow> exn_class e = TypeError \<or> exn_class e = OverflowError"
  by (induction js arbitrary: acc) (auto split: option.splits sum.splits dest: number_add_error)

lemma truediv_error:
  assumes "0 < n" and "truediv a n = Inl e"
  shows "exn_class e = OverflowError"
proof (cases a)
  case (PyInt i)
  with assms show ?thesis by (auto split: double.splits)
next
  case (PyFloat x)
  show ?thesis
  proof (cases "int_to_double n")
    case (Inl e')
    with assms PyFloat show ?thesis by (auto dest: int_to_double_error)
  next
    case (Inr y)
    from int_to_double_pos [OF assms(1) Inr] have "y \<noteq> 0" by simp
    with assms PyFloat Inr show ?thesis by (simp add: double_div_def)
  qed
qed

lemma sma_of_error:
  assumes "sma_of d = Inl e"
  shows "exn_class e = TypeError \<or> exn_class e = OverflowError"
proof -
  from assms have ne: "items d \<noteq> []"
    by (auto simp: sma_of_def split: if_splits)
  then have pos: "0 < int (length (items d))" by simp
  show ?thesis
  proof (cases "py_sum (items d)")
    case (Inl e')
    with assms ne have "e' = e" by (simp add: sma_of_def)
    with Inl show ?thesis
      unfolding py_sum_def by (auto dest: sum_from_error)
  next
    case (Inr total_price)
    with assms ne have "truediv total_price (int (length (items d))) = Inl e"
      by (simp add: sma_of_def)
    from truediv_error [OF pos this] show ?thesis by simp
  qed
qed

lemma digit_char_simps:
  "digit_char 0 = CHR ''0''" "digit_char 1 = CHR ''1''" "digit_char 2 = CHR ''2''"
  "digit_char 3 = CHR ''3''" "digit_char 4 = CHR ''4''" "digit_char 5 = CHR ''5''"
  "digit_char 6 = CHR ''6''" "digit_char 7 = CHR ''7''" "digit_char 8 = CHR ''8''"
  "digit_char 9 = CHR ''9''"
  by code_simp+

lemma show_nat_0: "show_nat 0 = ''0''"
  by (simp add: show_nat.simps digit_char_simps)

lemma format_2f_0: "format_2f 0 = ''0.00''"
  by (simp add: format_2f_def round_half_even_def show_nat_0 commas.simps digit_char_simps)

subsection \<open>Remote calls and the shutdown flag along a run\<close>

text \<open>
  The log line written by \<open>signal_handler\<close> marks, in the trace, the moment the flag is
  set. \<open>no_call_after_shutdown\<close> reads a trace from the oldest event on and says that no
  \<open>Call\<close> event comes after the first such line. \<open>follows s s'\<close> relates a state to a later
  one of the same run: the trace only grows, the flag is set exactly when it was set or
  the handler ran in between, and no remote call was made while the flag was set.
\<close>

definition is_call :: "event \<Rightarrow> bool" where
  "is_call e = (case e of Call _ _ \<Rightarrow> True | _ \<Rightarrow> False)"

lemma is_call_simps [simp]:
  "is_call (Call u p)" "\<not> is_call (Sleep n)" "\<not> is_call (LogInfo m)"
  "\<not> is_call (LogError j)" "\<not> is_call (Print l)"
  by (simp_all add: is_call_def)

fun no_call_after_shutdown :: "event list \<Rightarrow> bool" where
  "no_call_after_shutdown [] = True"
| "no_call_after_shutdown (e # es) =
     (if e = LogInfo shutting_down then \<not> list_ex is_call es else no_call_after_shutdown es)"

definition follows :: "state \<Rightarrow> state \<Rightarrow> bool" where
  "follows s s' =
     (\<exists>new. trace s' = trace s @ new
        \<and> shutdown_requested s' = (shutdown_requested s \<or> LogInfo shutting_down \<in> set new)
        \<and> (shutdown_requested s \<longrightarrow> \<not> list_ex is_call new)
        \<and> no_call_after_shutdown new)"

lemma no_call_after_shutdown_append:
  "no_call_after_shutdown (xs @ ys) =
     (if LogInfo shutting_down \<in> set xs
      then no_call_after_shutdown xs \<and> \<not> list_ex is_call ys
      else no_call_after_shutdown ys)"
  by (induction xs) (auto simp: list_ex_iff)

lemma follows_refl [simp]: "follows s s"
  by (simp add: follows_def)

lemma follows_trans: "follows s s' \<Longrightarrow> follows s' s'' \<Longrightarrow> follows s s''"
  unfolding follows_def
  by (elim exE conjE, rule_tac x = "new @ newa" in exI)
     (auto simp: no_call_after_shutdown_append list_ex_iff)

lemma follows_fields:
  "trace s' = trace s \<Longrightarrow> shutdown_requested s' = shutdown_requested s \<Longrightarrow> follows s s'"
  by (simp add: follows_def)

lemma follows_emit:
  "\<not> is_call e \<Longrightarrow> e \<noteq> LogInfo shutting_down \<Longrightarrow> follows s (emit e s)"
  by (simp add: follows_def)

lemma follows_emit_call:
  "\<not> shutdown_requested s \<Longrightarrow> follows s (emit (Call u p) s)"
  by (simp add: follows_def)

lemma follows_signal_handler: "follows s (signal_handler s)"
  by (simp add: follows_def signal_handler_def)

lemma follows_deliver_sigint: "follows s (deliver_sigint s)"
  by (auto simp: deliver_sigint_def split: list.splits
      intro: follows_trans [OF follows_fields follows_signal_handler] follows_fields)

lemma follows_session_get:
  "\<not> shutdown_requested s \<Longrightarrow> session_get u p s = (r, s') \<Longrightarrow> follows s s'"
  by (auto simp: session_get_def Let_def split: list.splits outcome.splits
      intro!: follows_trans [OF follows_emit_call follows_fields])

lemma follows_attempt: "attempt u p d s = (r, s') \<Longrightarrow> follows s s'"
  unfolding attempt_def Let_def
  by (auto split: if_splits prod.splits result.splits sum.splits
      intro: follows_deliver_sigint follows_trans [OF follows_deliver_sigint follows_session_get])

lemma follows_update_retry_info: "update_retry_info n e s = (r, s') \<Longrightarrow> follows s s'"
  by (auto simp: update_retry_info_def split: if_splits sum.splits intro!: follows_emit)


lemma follows_retry: "retry u p d n s = (r, s') \<Longrightarrow> follows s s'"
proof (induction u p d n s arbitrary: r s' rule: retry.induct)
  case (1 u p d n s)
  obtain a s1 where att: "attempt u p d s = (a, s1)"
    by (cases "attempt u p d s")
  note f1 = follows_attempt [OF att]
  show ?case
  proof (cases a)
    case (Returned v)
    with att "1.prems" f1 show ?thesis
      by (simp add: retry.simps [of u p d n s])
  next
    case Blocked
    with att "1.prems" f1 show ?thesis
      by (simp add: retry.simps [of u p d n s])
  next
    case (Raised e)
    show ?thesis
    proof (cases "retry_if_exception_type e")
      case False
      with Raised att "1.prems" f1 show ?thesis
        by (simp add: retry.simps [of u p d n s])
    next
      case True
      obtain h s2 where hook: "update_retry_info n e s1 = (h, s2)"
        by (cases "update_retry_info n e s1")
      note f2 = follows_trans [OF f1 follows_update_retry_info [OF hook]]
      show ?thesis
      proof (cases h)
        case (Returned x)
        with True Raised att hook "1.prems"
        have rec: "retry u p d (Suc n) (emit (Sleep (retry_wait n)) s2) = (r, s')"
          by (simp add: retry.simps [of u p d n s])
        have "follows s2 (emit (Sleep (retry_wait n)) s2)"
          by (rule follows_emit) simp_all
        from follows_trans [OF follows_trans [OF f2 this]
            "1.IH" [OF att [symmetric] Raised True hook [symmetric] Returned rec]]
        show ?thesis .
      next
        case (Raised e')
        with True \<open>a = Raised e\<close> att hook "1.prems" f2 show ?thesis
          by (simp add: retry.simps [of u p d n s])
      next
        case Blocked
        with True \<open>a = Raised e\<close> att hook "1.prems" f2 show ?thesis
          by (simp add: retry.simps [of u p d n s])
      qed
    qed
  qed
qed

lemma follows_poll: "poll coin csym prices s = (r, s') \<Longrightarrow> follows s s'"
proof (induction coin csym prices s arbitrary: r s' rule: poll.induct)
  case (1 coin csym prices s)
  let ?s0 = "deliver_sigint s"
  note f0 = follows_deliver_sigint [of s]
  show ?case
  proof (cases "shutdown_requested ?s0")
    case True
    with "1.prems" f0 show ?thesis
      by (simp add: poll.simps [of coin csym prices s] Let_def)
  next
    case False
    obtain a s1 where fp: "fetch_price coin ?s0 = (a, s1)"
      by (cases "fetch_price coin ?s0")
    then have "follows ?s0 s1"
      unfolding fetch_price_def by (rule follows_retry)
    note f1 = follows_trans [OF f0 this]
    show ?thesis
    proof (cases a)
      case Blocked
      with False fp "1.prems" f1 show ?thesis
        by (simp add: poll.simps [of coin csym prices s] Let_def)
    next
      case (Raised e)
      have "follows s1 (emit (LogError (JStr (str_exn e))) s1)"
        by (rule follows_emit) simp_all
      with Raised False fp "1.prems" follows_trans [OF f1] show ?thesis
        by (simp add: poll.simps [of coin csym prices s] Let_def)
    next
      case (Returned x)
      obtain price timestamp where x: "x = (price, timestamp)"
        by (cases x)
      let ?prices' = "deque_append prices price"
      show ?thesis
      proof (cases "sma_of ?prices'")
        case (Inl e)
        with Returned x False fp "1.prems" f1 show ?thesis
          by (simp add: poll.simps [of coin csym prices s] Let_def)
      next
        case (Inr sma)
        show ?thesis
        proof (cases "output_line timestamp csym price (length (items ?prices')) sma")
          case (Inl e)
          with Inr Returned x False fp "1.prems" f1 show ?thesis
            by (simp add: poll.simps [of coin csym prices s] Let_def)
        next
          case line: (Inr line)
          let ?s2 = "emit (Sleep 1) (emit (Print line) s1)"
          from line Inr Returned x False fp "1.prems"
          have rec: "poll coin csym ?prices' ?s2 = (r, s')"
            by (simp add: poll.simps [of coin csym prices s] Let_def)
          have "follows s1 ?s2"
            by (rule follows_trans [OF follows_emit follows_emit]) simp_all
          from follows_trans [OF follows_trans [OF f1 this]
              "1.IH" [OF refl False fp [symmetric] Returned x [symmetric] refl Inr line rec]]
          show ?thesis .
        qed
      qed
    qed
  qed
qed

lemma follows_main: "main coin C s = (r, s') \<Longrightarrow> follows s s'"
  unfolding main_def get_coin_symbol_def
  by (auto split: sum.splits prod.splits result.splits
      dest!: follows_retry follows_poll intro: follows_trans)

lemma follows_drop:
  assumes "follows s s'"
  shows "trace s' = trace s @ drop (length (trace s)) (trace s')"
    and "shutdown_requested s' =
           (shutdown_requested s \<or> LogInfo shutting_down \<in> set (drop (length (trace s)) (trace s')))"
    and "shutdown_requested s \<Longrightarrow> \<not> list_ex is_call (drop (length (trace s)) (trace s'))"
    and "no_call_after_shutdown (drop (length (trace s)) (trace s'))"
  using assms unfolding follows_def by auto

lemma follows_flag: "follows s s' \<Longrightarrow> shutdown_requested s \<Longrightarrow> shutdown_requested s'"
  unfolding follows_def by auto

lemma follows_snd:
  "follows s (snd (attempt u p d s))" "follows s (snd (update_retry_info n e s))"
  "follows s (snd (retry u p d n s))" "follows s (snd (get_coin_symbol coin s))"
  "follows s (snd (fetch_price coin s))" "follows s (snd (poll coin csym prices s))"
  "follows s (snd (main coin C s))"
  using follows_attempt follows_update_retry_info follows_retry follows_poll follows_main
  by (metis prod.collapse get_coin_symbol_def fetch_price_def)+

lemma starting_not_shutting_down: "''Script is starting...'' \<noteq> shutting_down"
  by (simp add: shutting_down_def)

lemma script_trace: "no_call_after_shutdown (trace (snd (script coin C sigs outs)))"
proof -
  let ?s = "initial sigs outs"
  let ?s' = "snd (script coin C sigs outs)"
  have f: "follows ?s ?s'" unfolding script_def by (rule follows_snd)
  define new where "new = drop (length (trace ?s)) (trace ?s')"
  have t: "trace ?s' = LogInfo ''Script is starting...'' # new"
    using follows_drop(1) [OF f] by (simp add: initial_def new_def)
  have "no_call_after_shutdown new"
    unfolding new_def by (rule follows_drop(4) [OF f])
  then show ?thesis
    unfolding t by (simp add: starting_not_shutting_down)
qed

lemma attempt_shutdown:
  "shutdown_requested (deliver_sigint s) \<Longrightarrow>
   attempt u p d s = (Raised (Exn ShutdownRequested ''Shutdown requested, aborting fetch.'' None), deliver_sigint s)"
  by (simp add: attempt_def Let_def)

lemma retry_shutdown:
  "shutdown_requested (deliver_sigint s) \<Longrightarrow>
   retry u p d n s = (Raised (Exn ShutdownRequested ''Shutdown requested, aborting fetch.'' None), deliver_sigint s)"
  by (simp add: retry.simps [of u p d n s] attempt_shutdown retry_if_exception_type_def)

lemma poll_shutdown:
  "shutdown_requested (deliver_sigint s) \<Longrightarrow> poll coin csym prices s = (Returned (), deliver_sigint s)"
  by (simp add: poll.simps [of coin csym prices s] Let_def)


lemma signal_handler_flag: "shutdown_requested (signal_handler s)"
  by (simp add: signal_handler_def)

lemma session_get_flag: "shutdown_requested (snd (session_get u p s)) = shutdown_requested s"
  by (simp add: session_get_def Let_def emit_def split: list.splits outcome.splits)

subsection \<open>Single steps of the retrier\<close>

lemma deliver_sigint_not_requested:
  assumes "\<not> shutdown_requested (deliver_sigint s)"
  shows "trace (deliver_sigint s) = trace s" and "\<not> shutdown_requested s"
  using assms
  by (auto simp: deliver_sigint_def signal_handler_def split: list.splits if_splits)

lemma deliver_sigint_idle: "signals s = [] \<Longrightarrow> deliver_sigint s = s"
  by (simp add: deliver_sigint_def)

lemma attempt_response:
  assumes "\<not> shutdown_requested (deliver_sigint s)" and "remote s = Response r # rest"
  shows "attempt u p d s =
           ((case d r of Inl e \<Rightarrow> Raised e | Inr v \<Rightarrow> Returned v),
            (emit (Call u p) (deliver_sigint s))\<lparr>remote := rest\<rparr>)"
  using assms by (simp add: attempt_def session_get_def Let_def split: sum.splits)

lemma attempt_network_error:
  assumes "\<not> shutdown_requested (deliver_sigint s)" and "remote s = NetworkError m # rest"
  shows "attempt u p d s =
           (Raised (Exn RequestException m None), (emit (Call u p) (deliver_sigint s))\<lparr>remote := rest\<rparr>)"
  using assms by (simp add: attempt_def session_get_def Let_def)

lemma retry_returned:
  "attempt u p d s = (Returned v, s1) \<Longrightarrow> retry u p d n s = (Returned v, s1)"
  by (simp add: retry.simps [of u p d n s])

lemma retry_terminal:
  "attempt u p d s = (Raised e, s1) \<Longrightarrow> \<not> retry_if_exception_type e \<Longrightarrow>
   retry u p d n s = (Raised e, s1)"
  by (simp add: retry.simps [of u p d n s])

lemma retry_hook_raises:
  "attempt u p d s = (Raised e, s1) \<Longrightarrow> retry_if_exception_type e \<Longrightarrow>
   update_retry_info n e s1 = (Raised e', s2) \<Longrightarrow> retry u p d n s = (Raised e', s2)"
  by (simp add: retry.simps [of u p d n s])

lemma not_found_response:
  "status_code r = 404 \<Longrightarrow> coin_symbol_of_response r = Inl (Exn PlainException (body_text r) None)"
  by (simp add: coin_symbol_of_response_def)

subsection \<open>Runs of failed attempts\<close>

text \<open>
  \<open>raised_by decode out\<close> is the exception of an attempt whose call meets the outcome
  \<open>out\<close>, if it raises one.  \<open>quiet_events u params n k\<close> are the events of \<open>k\<close> failed
  attempts in a row, the first with number \<open>n\<close>, when the hook writes nothing: a call
  and the wait after it, each time.
\<close>

definition raised_by :: "(response \<Rightarrow> exn + 'a) \<Rightarrow> outcome \<Rightarrow> exn option" where
  "raised_by decode out =
     (case out of
        NetworkError m \<Rightarrow> Some (Exn RequestException m None)
      | Response r \<Rightarrow> (case decode r of Inl e \<Rightarrow> Some e | Inr _ \<Rightarrow> None))"

fun quiet_events :: "string \<Rightarrow> (string \<times> string) list \<Rightarrow> nat \<Rightarrow> nat \<Rightarrow> event list" where
  "quiet_events u params n 0 = []"
| "quiet_events u params n (Suc k) =
     Call u params # Sleep (retry_wait n) # quiet_events u params (Suc n) k"

lemma attempt_raised:
  assumes "signals s = []" and "\<not> shutdown_requested s" and "remote s = out # rest"
    and "raised_by d out = Some e"
  shows "attempt u p d s = (Raised e, s\<lparr>remote := rest, trace := trace s @ [Call u p]\<rparr>)"
proof (cases out)
  case (NetworkError m)
  with assms show ?thesis
    by (simp add: attempt_def session_get_def Let_def deliver_sigint_idle raised_by_def emit_def)
next
  case (Response r)
  with assms show ?thesis
    by (simp add: attempt_def session_get_def Let_def deliver_sigint_idle raised_by_def emit_def
        split: sum.splits)
qed

lemma attempt_returned:
  assumes "signals s = []" and "\<not> shutdown_requested s" and "remote s = Response r # rest"
    and "d r = Inr v"
  shows "attempt u p d s = (Returned v, s\<lparr>remote := rest, trace := trace s @ [Call u p]\<rparr>)"
  using assms
  by (simp add: attempt_def session_get_def Let_def deliver_sigint_idle emit_def)

lemma update_retry_info_quiet: "n mod 5 \<noteq> 0 \<Longrightarrow> update_retry_info n e s = (Returned (), s)"
  by (simp add: update_retry_info_def)

lemma update_retry_info_logs:
  "n \<noteq> 0 \<Longrightarrow> n mod 5 = 0 \<Longrightarrow> error_message_of e = Inr msg \<Longrightarrow>
   update_retry_info n e s = (Returned (), emit (LogError msg) s)"
  by (simp add: update_retry_info_def)

lemma update_retry_info_raises:
  "n \<noteq> 0 \<Longrightarrow> n mod 5 = 0 \<Longrightarrow> error_message_of e = Inl e' \<Longrightarrow>
   update_retry_info n e s = (Raised e', s)"
  by (simp add: update_retry_info_def)

lemma retry_quiet_run:
  assumes "signals s = []" and "\<not> shutdown_requested s" and "remote s = outs @ rest"
    and "\<forall>out\<in>set outs. \<exists>e. raised_by d out = Some e \<and> retry_if_exception_type e"
    and "\<forall>i. n \<le> i \<and> i < n + length outs \<longrightarrow> i mod 5 \<noteq> 0"
  shows "retry u p d n s =
           retry u p d (n + length outs)
             (s\<lparr>remote := rest, trace := trace s @ quiet_events u p n (length outs)\<rparr>)"
  using assms
proof (induction outs arbitrary: n s)
  case Nil
  then have "rest = remote s" by simp
  then show ?case by simp
next
  case (Cons out outs)
  from Cons.prems(4) obtain e where e: "raised_by d out = Some e" "retry_if_exception_type e"
    by auto
  let ?s1 = "s\<lparr>remote := outs @ rest, trace := trace s @ [Call u p]\<rparr>"
  let ?s2 = "emit (Sleep (retry_wait n)) ?s1"
  have att: "attempt u p d s = (Raised e, ?s1)"
    using attempt_raised [OF Cons.prems(1,2) _ e(1)] Cons.prems(3) by simp
  have "n mod 5 \<noteq> 0"
    using Cons.prems(5) by simp
  then have hook: "update_retry_info n e ?s1 = (Returned (), ?s1)"
    by (rule update_retry_info_quiet)
  have step: "retry u p d n s = retry u p d (Suc n) ?s2"
    by (rule retry_step [OF att e(2) hook])
  have "retry u p d (Suc n) ?s2 =
          retry u p d (Suc n + length outs)
            (?s2\<lparr>remote := rest, trace := trace ?s2 @ quiet_events u p (Suc n) (length outs)\<rparr>)"
  proof (rule Cons.IH)
    show "signals ?s2 = []" using Cons.prems(1) by simp
    show "\<not> shutdown_requested ?s2" using Cons.prems(2) by simp
    show "remote ?s2 = outs @ rest" by simp
    show "\<forall>out\<in>set outs. \<exists>e. raised_by d out = Some e \<and> retry_if_exception_type e"
      using Cons.prems(4) by simp
    show "\<forall>i. Suc n \<le> i \<and> i < Suc n + length outs \<longrightarrow> i mod 5 \<noteq> 0"
      using Cons.prems(5) by simp
  qed
  with step show ?case by (simp add: emit_def)
qed

lemma retry_succeeds:
  assumes "signals s = []" and "\<not> shutdown_requested s" and "remote s = Response r # rest"
    and "d r = Inr v"
  shows "retry u p d n s = (Returned v, s\<lparr>remote := rest, trace := trace s @ [Call u p]\<rparr>)"
  by (rule retry_returned [OF attempt_returned [where d = d, OF assms]])

lemma retry_logs:
  assumes "signals s = []" and "\<not> shutdown_requested s" and "remote s = out # rest"
    and "raised_by d out = Some e" and "retry_if_exception_type e"
    and "n \<noteq> 0" and "n mod 5 = 0" and "error_message_of e = Inr msg"
  shows "retry u p d n s =
           retry u p d (Suc n)
             (s\<lparr>remote := rest,
                trace := trace s @ [Call u p, LogError msg, Sleep (retry_wait n)]\<rparr>)"
proof -
  let ?s1 = "s\<lparr>remote := rest, trace := trace s @ [Call u p]\<rparr>"
  have "retry u p d n s = retry u p d (Suc n) (emit (Sleep (retry_wait n)) (emit (LogError msg) ?s1))"
    by (rule retry_step [OF attempt_raised [OF assms(1-4)] assms(5)
          update_retry_info_logs [OF assms(6-8)]])
  then show ?thesis by (simp add: emit_def)
qed

lemma quiet_events_4:
  "quiet_events u p (Suc 0) 4 =
     [Call u p, Sleep 1, Call u p, Sleep 2, Call u p, Sleep 4, Call u p, Sleep 8]"
  by (simp add: numeral_eq_Suc retry_wait_def wait_exponential_def)


lemma error_message_of_body:
  assumes "exn_response e = Some r" and "json_body r = Inr (JObj kvs)"
  shows "map_of kvs ''status'' = None \<Longrightarrow> error_message_of e = Inr (JStr (str_exn e))"
    and "map_of kvs ''status'' = Some (JObj st) \<Longrightarrow> map_of st ''error_message'' = None \<Longrightarrow>
         error_message_of e = Inr (JStr (str_exn e))"
    and "map_of kvs ''status'' = Some (JObj st) \<Longrightarrow> map_of st ''error_message'' = Some msg \<Longrightarrow>
         error_message_of e = Inr msg"
  using assms by (simp_all add: error_message_of_def response_json_def dict_get_def)

lemma retry_wait_5: "retry_wait 5 = 16"
  by (simp add: retry_wait_def wait_exponential_def)

lemma retry_four_failures:
  assumes "signals s = []" and "\<not> shutdown_requested s"
    and "remote s = outs @ Response ok # rest" and "length outs = 4"
    and "\<forall>out\<in>set outs. \<exists>e. raised_by d out = Some e \<and> retry_if_exception_type e"
    and "d ok = Inr v"
  shows "retry u p d 1 s =
           (Returned v,
            s\<lparr>remote := rest,
              trace := trace s @ [Call u p, Sleep 1, Call u p, Sleep 2, Call u p, Sleep 4,
                                  Call u p, Sleep 8, Call u p]\<rparr>)"
proof -
  let ?s' = "s\<lparr>remote := Response ok # rest, trace := trace s @ quiet_events u p 1 (length outs)\<rparr>"
  have "\<forall>i. 1 \<le> i \<and> i < 1 + length outs \<longrightarrow> i mod 5 \<noteq> 0"
    unfolding assms(4) by presburger
  from retry_quiet_run [OF assms(1,2,3,5) this]
  have "retry u p d 1 s = retry u p d (1 + length outs) ?s'" .
  also have "\<dots> = (Returned v, ?s'\<lparr>remote := rest, trace := trace ?s' @ [Call u p]\<rparr>)"
    by (rule retry_succeeds [where d = d and r = ok and v = v, OF _ _ _ assms(6)])
       (simp_all add: assms(1,2))
  finally show ?thesis
    by (simp add: assms(4) quiet_events_4)
qed

lemma retry_five_failures:
  assumes "signals s = []" and "\<not> shutdown_requested s"
    and "remote s = outs @ out5 # Response ok # rest" and "length outs = 4"
    and "\<forall>out\<in>set outs. \<exists>e. raised_by d out = Some e \<and> retry_if_exception_type e"
    and "raised_by d out5 = Some e5" and "retry_if_exception_type e5"
    and "error_message_of e5 = Inr msg"
    and "d ok = Inr v"
  shows "retry u p d 1 s =
           (Returned v,
            s\<lparr>remote := rest,
              trace := trace s @ [Call u p, Sleep 1, Call u p, Sleep 2, Call u p, Sleep 4,
                                  Call u p, Sleep 8, Call u p, LogError msg, Sleep 16, Call u p]\<rparr>)"
proof -
  let ?s1 = "s\<lparr>remote := out5 # Response ok # rest,
                trace := trace s @ quiet_events u p 1 (length outs)\<rparr>"
  let ?s2 = "?s1\<lparr>remote := Response ok # rest,
                  trace := trace ?s1 @ [Call u p, LogError msg, Sleep (retry_wait 5)]\<rparr>"
  have "\<forall>i. 1 \<le> i \<and> i < 1 + length outs \<longrightarrow> i mod 5 \<noteq> 0"
    unfolding assms(4) by presburger
  from retry_quiet_run [OF assms(1,2,3,5) this]
  have "retry u p d 1 s = retry u p d 5 ?s1"
    by (simp add: assms(4))
  also have "\<dots> = retry u p d (Suc 5) ?s2"
    by (rule retry_logs [OF _ _ _ assms(6,7) _ _ assms(8)]) (simp_all add: assms(1,2))
  also have "\<dots> = (Returned v, ?s2\<lparr>remote := rest, trace := trace ?s2 @ [Call u p]\<rparr>)"
    by (rule retry_succeeds [where d = d and r = ok and v = v, OF _ _ _ assms(9)])
       (simp_all add: assms(1,2))
  finally show ?thesis
    by (simp add: assms(4) quiet_events_4 retry_wait_5)
qed


lemma price_of_response_example:
  "price_of_response ''bitcoin''
     \<lparr>status_code = 200, reason = ''OK'', url = URL @ ''/simple/price'', body_text = [],
      json_body = Inr (JObj [(''bitcoin'', JObj [(''usd'', JInt 67000),
                                                 (''last_updated_at'', JInt 1700000000)])])\<rparr>
   = Inr (JInt 67000, ''2023-11-14T22:13:20'')"
  by code_simp

lemma too_many_requests_example:
  "price_of_response ''bitcoin''
     \<lparr>status_code = 429, reason = ''Too Many Requests'', url = ''u'', body_text = [],
      json_body = Inr (JObj [(''status'', JObj [(''error_code'', JInt 429),
                                                (''error_message'', JStr ''Rate limit exceeded'')])])\<rparr>
   = Inl (Exn RequestException ''429 Client Error: Too Many Requests for url: u''
           (Some \<lparr>status_code = 429, reason = ''Too Many Requests'', url = ''u'', body_text = [],
                  json_body = Inr (JObj [(''status'', JObj [(''error_code'', JInt 429),
                                            (''error_message'', JStr ''Rate limit exceeded'')])])\<rparr>))"
  by code_simp


lemma network_error_raised:
  "raised_by d (NetworkError m) = Some (Exn RequestException m None)"
  "retry_if_exception_type (Exn RequestException m resp)"
  by (simp_all add: raised_by_def retry_if_exception_type_def)

subsection \<open>What \<^verbatim>\<open>fetch_price\<close> raises\<close>

lemma retry_raises:
  assumes "signals s = []" and "\<not> shutdown_requested s" and "remote s = out # rest"
    and "raised_by d out = Some e" and "\<not> retry_if_exception_type e"
  shows "retry u p d n s = (Raised e, s\<lparr>remote := rest, trace := trace s @ [Call u p]\<rparr>)"
  by (rule retry_terminal [OF attempt_raised [OF assms(1-4)] assms(5)])

lemma retry_absorbs:
  assumes "signals s = []" and "\<not> shutdown_requested s" and "remote s = out # rest"
    and "raised_by d out = Some e" and "retry_if_exception_type e" and "n mod 5 \<noteq> 0"
  shows "retry u p d n s =
           retry u p d (Suc n)
             (s\<lparr>remote := rest, trace := trace s @ [Call u p, Sleep (retry_wait n)]\<rparr>)"
proof -
  let ?s1 = "s\<lparr>remote := rest, trace := trace s @ [Call u p]\<rparr>"
  have "retry u p d n s = retry u p d (Suc n) (emit (Sleep (retry_wait n)) ?s1)"
    by (rule retry_step [OF attempt_raised [OF assms(1-4)] assms(5)
          update_retry_info_quiet [OF assms(6)]])
  then show ?thesis by (simp add: emit_def)
qed

lemma poll_fetch_raises:
  assumes "signals s = []" and "\<not> shutdown_requested s"
    and "fetch_price coin s = (Raised e, s1)"
  shows "poll coin csym prices s = (Returned (), emit (LogError (JStr (str_exn e))) s1)"
  using assms by (simp add: poll.simps [of coin csym prices s] deliver_sigint_idle)

lemma http_error_response:
  assumes "400 \<le> status_code r" and "status_code r < 600"
  shows "\<exists>m. price_of_response coin r = Inl (Exn RequestException m (Some r))"
  using assms by (auto simp: price_of_response_def raise_for_status_def)

lemma not_json_response:
  assumes "status_code r < 400 \<or> 600 \<le> status_code r" and "json_body r = Inl m"
  shows "price_of_response coin r = Inl (Exn RequestException m None)"
  using assms by (auto simp: price_of_response_def raise_for_status_def response_json_def)

lemma missing_field_response:
  assumes "status_code r < 400 \<or> 600 \<le> status_code r" and "json_body r = Inr (JObj kvs)"
  shows "map_of kvs coin = None \<Longrightarrow>
           price_of_response coin r = Inl (Exn KeyError (quoted coin) None)"
    and "map_of kvs coin = Some (JObj ent) \<Longrightarrow> map_of ent ''usd'' = None \<Longrightarrow>
           price_of_response coin r = Inl (Exn KeyError (quoted ''usd'') None)"
    and "map_of kvs coin = Some (JObj ent) \<Longrightarrow> map_of ent ''usd'' = Some x \<Longrightarrow>
           map_of ent ''last_updated_at'' = None \<Longrightarrow>
           price_of_response coin r = Inl (Exn KeyError (quoted ''last_updated_at'') None)"
  using assms
  by (auto simp: price_of_response_def raise_for_status_def response_json_def subscript_def)

lemma key_error_not_retried: "\<not> retry_if_exception_type (Exn KeyError m resp)"
  by (simp add: retry_if_exception_type_def)

lemma response_raised:
  "price_of_response coin r = Inl e \<Longrightarrow> raised_by (price_of_response coin) (Response r) = Some e"
  by (simp add: raised_by_def)


lemma fetch_price_surfaces:
  assumes "signals s = []" and "\<not> shutdown_requested s" and "remote s = Response r # rest"
    and "price_of_response coin r = Inl e" and "\<not> retry_if_exception_type e"
  shows "fetch_price coin s =
           (Raised e,
            s\<lparr>remote := rest,
              trace := trace s @ [Call (URL @ ''/simple/price'') (price_params coin)]\<rparr>)"
    and "poll coin csym prices s =
           (Returned (),
            s\<lparr>remote := rest,
              trace := trace s @ [Call (URL @ ''/simple/price'') (price_params coin),
                                  LogError (JStr (str_exn e))]\<rparr>)"
proof -
  show f: "fetch_price coin s =
           (Raised e,
            s\<lparr>remote := rest,
              trace := trace s @ [Call (URL @ ''/simple/price'') (price_params coin)]\<rparr>)"
    unfolding fetch_price_def
    by (rule retry_raises [OF assms(1-3) response_raised [OF assms(4)] assms(5)])
  show "poll coin csym prices s =
           (Returned (),
            s\<lparr>remote := rest,
              trace := trace s @ [Call (URL @ ''/simple/price'') (price_params coin),
                                  LogError (JStr (str_exn e))]\<rparr>)"
    unfolding poll_fetch_raises [OF assms(1,2) f] by (simp add: emit_def)
qed

lemma fetch_price_absorbs:
  assumes "signals s = []" and "\<not> shutdown_requested s" and "remote s = Response r # rest"
    and "price_of_response coin r = Inl e" and "retry_if_exception_type e"
  shows "fetch_price coin s =
           retry (URL @ ''/simple/price'') (price_params coin) (price_of_response coin) 2
             (s\<lparr>remote := rest,
                trace := trace s @ [Call (URL @ ''/simple/price'') (price_params coin), Sleep 1]\<rparr>)"
proof -
  have "retry_wait 1 = 1"
    by (simp add: retry_wait_def wait_exponential_def)
  with retry_absorbs [OF assms(1-3) response_raised [OF assms(4)] assms(5), of 1]
  show ?thesis
    unfolding fetch_price_def by (simp add: numeral_2_eq_2)
qed

subsection \<open>One cycle of the loop, and the average of a window\<close>




lemma digit_char_Suc_0: "digit_char (Suc 0) = CHR ''1''"
  using digit_char_simps(2) by simp

lemma round_double_examples:
  "round_double 67021 = Finite 67021"
  "round_double (134031 / 2) = Finite (134031 / 2)"
  by (simp_all add: round_double_def exponent_def Let_def ilog2.simps pow2_def round_half_even_def)

lemma format_2f_examples:
  "format_2f 67021 = ''67,021.00''"
  "format_2f (134031 / 2) = ''67,015.50''"
  by (simp_all add: format_2f_def round_half_even_def Let_def show_nat.simps commas.simps
      digit_char_simps digit_char_Suc_0)











subsection \<open>What a cycle prints\<close>

definition is_print :: "event \<Rightarrow> bool" where
  "is_print e = (case e of Print _ \<Rightarrow> True | _ \<Rightarrow> False)"

lemma is_print_simps [simp]:
  "is_print (Print l)" "\<not> is_print (Call u p)" "\<not> is_print (Sleep n)"
  "\<not> is_print (LogInfo m)" "\<not> is_print (LogError j)"
  by (simp_all add: is_print_def)




















subsection \<open>The exponent of a positive real\<close>

text \<open>\<open>exponent a\<close> is the power of two at or below \<open>a\<close>: the spacing \<open>round_double\<close> uses is
  that of the floats between \<open>2 ^ e\<close> and \<open>2 ^ (e + 1)\<close>.\<close>

lemma ilog2_less: "n < 2 ^ Suc (ilog2 n)"
proof (induction n rule: ilog2.induct)
  case (1 n)
  show ?case
  proof (cases "n < 2")
    case True
    then show ?thesis by (simp add: ilog2.simps [of n])
  next
    case False
    from "1.IH" [OF False] have "n div 2 < 2 ^ Suc (ilog2 (n div 2))" .
    then have "n < 2 * 2 ^ Suc (ilog2 (n div 2))" by simp
    with False show ?thesis by (simp add: ilog2.simps [of n])
  qed
qed

lemma pow2_nat: "pow2 (int k) = 2 ^ k"
  by (simp add: pow2_def)

lemma pow2_neg: "pow2 (- int k) = 1 / 2 ^ k"
  by (cases "k = 0") (simp_all add: pow2_def)

lemma exponent_bounds:
  assumes "0 < a"
  shows "pow2 (exponent a) \<le> a \<and> a < pow2 (exponent a + 1)"
proof (cases "1 \<le> a")
  case True
  let ?m = "nat \<lfloor>a\<rfloor>"
  from True have m: "0 < ?m" by simp
  have e: "exponent a = int (ilog2 ?m)"
    using True by (simp add: exponent_def)
  have "real (2 ^ ilog2 ?m) \<le> real ?m"
    using ilog2_le [OF m] by (rule iffD2 [OF of_nat_le_iff])
  also have "real ?m \<le> a"
    using True by simp
  finally have low: "(2::real) ^ ilog2 ?m \<le> a" by simp
  have "?m + 1 \<le> 2 ^ Suc (ilog2 ?m)"
    using ilog2_less [of ?m] by simp
  then have "real (?m + 1) \<le> real (2 ^ Suc (ilog2 ?m))"
    by (rule iffD2 [OF of_nat_le_iff])
  moreover have "a < real (?m + 1)"
    using True by simp linarith
  ultimately have up: "a < 2 ^ Suc (ilog2 ?m)" by simp
  have "exponent a + 1 = int (Suc (ilog2 ?m))"
    unfolding e by simp
  with low up e show ?thesis
    by (simp only: pow2_nat)
next
  case False
  define b where "b = 1 / a"
  define k where "k = ilog2 (nat \<lfloor>1 / a\<rfloor>)"
  have kb: "k = ilog2 (nat \<lfloor>b\<rfloor>)" by (simp add: k_def b_def)
  from False assms have b1: "1 < b" by (simp add: b_def)
  then have fl: "1 \<le> \<lfloor>b\<rfloor>" by simp
  then have m: "0 < nat \<lfloor>b\<rfloor>" by simp
  have rm: "real (nat \<lfloor>b\<rfloor>) = of_int \<lfloor>b\<rfloor>"
    using fl by simp
  have "real (2 ^ k) \<le> real (nat \<lfloor>b\<rfloor>)"
    unfolding kb using ilog2_le [OF m] by (rule iffD2 [OF of_nat_le_iff])
  also have "real (nat \<lfloor>b\<rfloor>) \<le> b"
    unfolding rm by (rule of_int_floor_le)
  finally have "(2::real) ^ k \<le> 1 / a" by (simp add: b_def)
  then have le: "a * 2 ^ k \<le> 1"
    using assms by (simp add: le_divide_eq mult.commute)
  have "nat \<lfloor>b\<rfloor> + 1 \<le> 2 ^ Suc k"
    unfolding kb using ilog2_less [of "nat \<lfloor>b\<rfloor>"] by simp
  then have "real (nat \<lfloor>b\<rfloor> + 1) \<le> real (2 ^ Suc k)"
    by (rule iffD2 [OF of_nat_le_iff])
  moreover have "b < real (nat \<lfloor>b\<rfloor> + 1)"
    using rm by simp linarith
  ultimately have "1 / a < 2 ^ Suc k" by (simp add: b_def)
  then have gt: "1 < a * 2 ^ Suc k"
    using assms by (simp add: divide_less_eq mult.commute)
  show ?thesis
  proof (cases "a * 2 ^ k = 1")
    case True
    then have a: "a = 1 / 2 ^ k"
      by (simp add: eq_divide_eq)
    have e: "exponent a = - int k"
      using False True by (simp add: exponent_def Let_def k_def)
    have "a < pow2 (- int k + 1)"
    proof (cases k)
      case 0
      with False show ?thesis by (simp add: pow2_def)
    next
      case (Suc j)
      then have "- int k + 1 = - int j" by simp
      then have "pow2 (- int k + 1) = 1 / 2 ^ j" by (simp only: pow2_neg)
      also have "\<dots> = 2 * (1 / 2 ^ k)" unfolding Suc by simp
      also have "\<dots> = 2 * a" using a by simp
      finally show ?thesis using assms by simp
    qed
    moreover have "pow2 (- int k) \<le> a"
      using a by (simp only: pow2_neg)
    ultimately show ?thesis
      unfolding e by simp
  next
    case neq: False
    have e: "exponent a = - int (Suc k)"
      using False neq by (simp add: exponent_def Let_def k_def)
    have e1: "exponent a + 1 = - int k"
      unfolding e by simp
    from gt have low: "1 / 2 ^ Suc k \<le> a"
      by (simp add: divide_le_eq)
    from le neq have "a * 2 ^ k < 1" by simp
    then have up: "a < 1 / 2 ^ k"
      by (simp add: less_divide_eq)
    from low have "pow2 (exponent a) \<le> a"
      unfolding e by (simp only: pow2_neg)
    moreover from up have "a < pow2 (exponent a + 1)"
      unfolding e1 by (simp only: pow2_neg)
    ultimately show ?thesis ..
  qed
qed

section \<open>The claims\<close>

text \<open>
  C2.  The wait after the failed attempt number \<open>k\<close>, that is before the \<open>k\<close>-th
  retry, is \<open>min 900 (2 ^ (k - 1))\<close> seconds: 1, 2, 4, 8, ... and 900 from the
  eleventh on; no wait exceeds 900; and this is the time the retrier sleeps between
  a failed attempt number \<open>k\<close> and the attempt after it.
\<close>

theorem C2_backoff_delay:
  assumes "1 \<le> k"
  shows "retry_wait k = min 900 (2 ^ (k - 1)) \<and> retry_wait k \<le> 900
         \<and> (\<forall>u params (decode :: response \<Rightarrow> exn + 'a) s e s1 s2.
               attempt u params decode s = (Raised e, s1) \<and> retry_if_exception_type e
               \<and> update_retry_info k e s1 = (Returned (), s2)
               \<longrightarrow> retry u params decode k s
                     = retry u params decode (Suc k) (emit (Sleep (min 900 (2 ^ (k - 1)))) s2))"
  using assms retry_step retry_wait_eq [OF assms] retry_wait_le [of k] by metis

theorem C2_backoff_delay_witness:
  "(1::nat) \<le> 11 \<and> retry_wait 11 = 900 \<and> retry_wait 4 = 8"
  using C2_backoff_delay [where 'a = unit, of 11] C2_backoff_delay [where 'a = unit, of 4] by simp

text \<open>
  C10.  For every capacity \<open>C \<ge> 0\<close> the average of line 113 never raises
  \<^verbatim>\<open>ZeroDivisionError\<close>: the division is reached only with a window that is not
  empty, and an empty window gives 0.  With capacity 0 the window is empty after
  every append, so each cycle shows the count 0 and the average 0.00.
\<close>

theorem C10_no_division_by_zero:
  assumes "0 \<le> C" and "deque_new C = Inr d0"
  shows "let d = foldl deque_append d0 js
         in (\<forall>e. sma_of d = Inl e \<longrightarrow> exn_class e \<noteq> ZeroDivisionError)
            \<and> (items d = [] \<longrightarrow> sma_of d = Inr 0)
            \<and> (C = 0 \<longrightarrow> items d = [] \<and> sma_of d = Inr 0
                 \<and> output_line timestamp coin_symbol (JFloat p) (length (items d)) 0
                     = Inr (''['' @ timestamp @ ''] '' @ coin_symbol @ '' '' @ arrow @ '' USD: $''
                              @ format_2f p @ '': SMA(0): $0.00''))"
proof -
  from assms have d0: "d0 = \<lparr>items = [], maxlen = nat C\<rparr>"
    by (simp add: deque_new_def split: if_splits)
  have empty: "items (foldl deque_append d0 js) = []" if "C = 0"
    unfolding d0 items_foldl_deque_append using that by simp
  have zero: "sma_of d = Inr 0" if "items d = []" for d
    using that by (simp add: sma_of_def zero_number_def)
  have never: "exn_class e \<noteq> ZeroDivisionError" if "sma_of d = Inl e" for d e
    using sma_of_error [OF that] by auto
  have line: "output_line timestamp coin_symbol (JFloat p) 0 0
                = Inr (''['' @ timestamp @ ''] '' @ coin_symbol @ '' '' @ arrow @ '' USD: $''
                         @ format_2f p @ '': SMA(0): $0.00'')"
    by (simp add: output_line_def format_price_def as_number_def format_number_def
        format_double_def zero_number_def int_to_double_def round_double_def show_nat_0 format_2f_0)
  show ?thesis
    unfolding Let_def using never empty zero line by fastforce
qed

theorem C10_no_division_by_zero_witness:
  "(0::int) \<le> 0
   \<and> deque_new 0 = Inr \<lparr>items = [], maxlen = 0\<rparr>
   \<and> items (foldl deque_append \<lparr>items = [], maxlen = 0\<rparr> [JFloat 67000.5, JFloat 67010.25]) = []
   \<and> sma_of (foldl deque_append \<lparr>items = [], maxlen = 0\<rparr> [JFloat 67000.5, JFloat 67010.25]) = Inr 0"
proof -
  have h1: "(0::int) \<le> 0" by simp
  have h2: "deque_new 0 = Inr \<lparr>items = [], maxlen = 0\<rparr>"
    by (simp add: deque_new_def)
  from C10_no_division_by_zero [OF h1 h2, of "[JFloat 67000.5, JFloat 67010.25]"] h2
  show ?thesis by (simp add: Let_def)
qed

text \<open>
  C7.  As stated the claim fails: capacity 0 is accepted, and the program has no
  error kind of its own for a refused capacity.  What holds: a negative capacity is
  refused at the start of \<^verbatim>\<open>main\<close>, before any remote call and any log line, by the
  exception of the \<^verbatim>\<open>deque\<close> constructor: \<^verbatim>\<open>ValueError\<close> from \<open>- 2 ^ 63\<close> on,
  \<^verbatim>\<open>OverflowError\<close> below.  Capacity 0 is accepted: \<^verbatim>\<open>main\<close> goes on to resolve the
  symbol and to poll, with a window that every append leaves empty.
\<close>

theorem C7_nonpositive_capacity:
  assumes "C \<le> 0"
  shows "(C < - (2 ^ 63) \<longrightarrow>
            main coin C s
              = (Raised (Exn OverflowError ''Python int too large to convert to C ssize_t'' None), s))
         \<and> (- (2 ^ 63) \<le> C \<and> C < 0 \<longrightarrow>
            main coin C s = (Raised (Exn ValueError ''maxlen must be non-negative'' None), s))
         \<and> (C = 0 \<longrightarrow>
              (deque_new C :: exn + json deque) = Inr \<lparr>items = [], maxlen = 0\<rparr>
              \<and> main coin C s =
                  (case get_coin_symbol coin s of
                     (Returned coin_symbol, s1) \<Rightarrow>
                       poll coin coin_symbol \<lparr>items = [], maxlen = 0\<rparr> s1
                   | (Raised e, s1) \<Rightarrow> (Raised e, s1)
                   | (Blocked, s1) \<Rightarrow> (Blocked, s1))
              \<and> deque_append \<lparr>items = [], maxlen = 0\<rparr> x = \<lparr>items = [], maxlen = 0\<rparr>
              \<and> items (foldl deque_append \<lparr>items = ([] :: json list), maxlen = 0\<rparr> js) = [])"
proof -
  have "items (foldl deque_append \<lparr>items = ([] :: json list), maxlen = 0\<rparr> js) = []"
    unfolding items_foldl_deque_append by simp
  moreover have "deque_append \<lparr>items = [], maxlen = 0\<rparr> x = \<lparr>items = [], maxlen = 0\<rparr>"
    by (simp add: deque_append_def)
  ultimately show ?thesis
    using assms by (simp add: main_def deque_new_def)
qed

theorem C7_nonpositive_capacity_witness:
  "(- 1 :: int) \<le> 0
   \<and> main ''bitcoin'' (- 1) (initial [] [])
       = (Raised (Exn ValueError ''maxlen must be non-negative'' None), initial [] [])
   \<and> main ''bitcoin'' (- 9223372036854775809) (initial [] [])
       = (Raised (Exn OverflowError ''Python int too large to convert to C ssize_t'' None),
          initial [] [])
   \<and> items (foldl deque_append \<lparr>items = [], maxlen = 0\<rparr> [JInt 67000, JInt 67010]) = []"
  using C7_nonpositive_capacity [of "- 1" "''bitcoin''" "initial [] []"]
    C7_nonpositive_capacity [of "- 9223372036854775809" "''bitcoin''" "initial [] []"]
    C7_nonpositive_capacity [where C = 0 and coin = "''bitcoin''" and s = "initial [] []"
      and x = "JInt 67000" and js = "[JInt 67000, JInt 67010]"]
  by (simp del: foldl_Cons)

theorem C7_counterexample:
  "(0::int) \<le> 0 \<and> (deque_new 0 :: exn + json deque) = Inr \<lparr>items = [], maxlen = 0\<rparr>"
  by (simp add: deque_new_def)

text \<open>
  C3.  A remote call is issued only by an attempt that has just read the flag as not
  set.  So in the trace of every run no \<open>Call\<close> comes after the line the handler
  logs when it sets the flag, and from a state where the flag is set no retrier, no
  decorated function, no loop and no \<^verbatim>\<open>main\<close> issues a call.  When the read at the
  start of an attempt finds the flag set, \<^verbatim>\<open>get_coin_symbol\<close> and \<^verbatim>\<open>fetch_price\<close>
  raise \<^verbatim>\<open>ShutdownRequested\<close> with nothing else done, whatever the number of the
  attempt; the retrier does not retry that exception; and the loop, when the read
  at its head finds the flag set, returns without a new cycle.
\<close>

theorem C3_no_call_after_shutdown:
  "no_call_after_shutdown (trace (snd (script coin C sigs outs)))
   \<and> (shutdown_requested s \<longrightarrow>
         \<not> list_ex is_call (drop (length (trace s)) (trace (snd (retry u p d n s))))
         \<and> \<not> list_ex is_call (drop (length (trace s)) (trace (snd (get_coin_symbol coin s))))
         \<and> \<not> list_ex is_call (drop (length (trace s)) (trace (snd (fetch_price coin s))))
         \<and> \<not> list_ex is_call (drop (length (trace s)) (trace (snd (poll coin csym prices s))))
         \<and> \<not> list_ex is_call (drop (length (trace s)) (trace (snd (main coin C s)))))
   \<and> (shutdown_requested (deliver_sigint s) \<longrightarrow>
         retry u p d n s
           = (Raised (Exn ShutdownRequested ''Shutdown requested, aborting fetch.'' None), deliver_sigint s)
         \<and> get_coin_symbol coin s
           = (Raised (Exn ShutdownRequested ''Shutdown requested, aborting fetch.'' None), deliver_sigint s)
         \<and> fetch_price coin s
           = (Raised (Exn ShutdownRequested ''Shutdown requested, aborting fetch.'' None), deliver_sigint s)
         \<and> poll coin csym prices s = (Returned (), deliver_sigint s))
   \<and> \<not> retry_if_exception_type (Exn ShutdownRequested m resp)"
proof -
  have run: "no_call_after_shutdown (trace (snd (script coin C sigs outs)))"
    by (rule script_trace)
  have quiet: "\<not> list_ex is_call (drop (length (trace s)) (trace (snd (retry u p d n s))))
      \<and> \<not> list_ex is_call (drop (length (trace s)) (trace (snd (get_coin_symbol coin s))))
      \<and> \<not> list_ex is_call (drop (length (trace s)) (trace (snd (fetch_price coin s))))
      \<and> \<not> list_ex is_call (drop (length (trace s)) (trace (snd (poll coin csym prices s))))
      \<and> \<not> list_ex is_call (drop (length (trace s)) (trace (snd (main coin C s))))"
    if "shutdown_requested s"
    using that follows_drop(3) [OF follows_snd(3)] follows_drop(3) [OF follows_snd(4)]
      follows_drop(3) [OF follows_snd(5)] follows_drop(3) [OF follows_snd(6)]
      follows_drop(3) [OF follows_snd(7)]
    by simp
  have fast: "retry u p d n s
        = (Raised (Exn ShutdownRequested ''Shutdown requested, aborting fetch.'' None), deliver_sigint s)
      \<and> get_coin_symbol coin s
        = (Raised (Exn ShutdownRequested ''Shutdown requested, aborting fetch.'' None), deliver_sigint s)
      \<and> fetch_price coin s
        = (Raised (Exn ShutdownRequested ''Shutdown requested, aborting fetch.'' None), deliver_sigint s)
      \<and> poll coin csym prices s = (Returned (), deliver_sigint s)"
    if "shutdown_requested (deliver_sigint s)"
    using that by (simp add: get_coin_symbol_def fetch_price_def retry_shutdown poll_shutdown)
  have terminal: "\<not> retry_if_exception_type (Exn ShutdownRequested m resp)"
    by (simp add: retry_if_exception_type_def)
  from run quiet fast terminal show ?thesis
    by (intro conjI impI) simp_all
qed

theorem C3_no_call_after_shutdown_witness:
  "shutdown_requested (deliver_sigint (initial [True] []))
   \<and> fetch_price ''bitcoin'' (initial [True] [])
       = (Raised (Exn ShutdownRequested ''Shutdown requested, aborting fetch.'' None),
          deliver_sigint (initial [True] []))
   \<and> poll ''bitcoin'' ''BTC'' \<lparr>items = [], maxlen = 10\<rparr> (initial [True] [])
       = (Returned (), deliver_sigint (initial [True] []))
   \<and> trace (deliver_sigint (initial [True] []))
       = [LogInfo ''Script is starting...'', LogInfo shutting_down]"
proof -
  have h: "shutdown_requested (deliver_sigint (initial [True] []))"
    by (simp add: deliver_sigint_def initial_def signal_handler_def)
  have t: "trace (deliver_sigint (initial [True] []))
             = [LogInfo ''Script is starting...'', LogInfo shutting_down]"
    by (simp add: deliver_sigint_def initial_def signal_handler_def emit_def)
  from C3_no_call_after_shutdown
    [where s = "initial [True] []" and coin = "''bitcoin''" and csym = "''BTC''"
       and prices = "\<lparr>items = [], maxlen = 10\<rparr>" and 'a = unit] h t
  show ?thesis by simp
qed

text \<open>
  C9.  The flag is false when the script starts; the handler sets it; every step
  of the program (an event, the delivery of a signal, a remote call, the hook, an
  attempt, the retrier, the two decorated functions, the loop, \<^verbatim>\<open>main\<close>) leaves a
  set flag set; and the flag is set at the end of \<^verbatim>\<open>main\<close> exactly when it was set
  at its start or the handler has run in between, which its log line shows.
\<close>

theorem C9_shutdown_flag_monotone:
  "\<not> shutdown_requested (initial sigs outs)
   \<and> shutdown_requested (signal_handler s)
   \<and> (shutdown_requested s \<longrightarrow>
         shutdown_requested (emit ev s)
         \<and> shutdown_requested (deliver_sigint s)
         \<and> shutdown_requested (snd (session_get u p s))
         \<and> shutdown_requested (snd (update_retry_info n e s))
         \<and> shutdown_requested (snd (attempt u p d s))
         \<and> shutdown_requested (snd (retry u p d n s))
         \<and> shutdown_requested (snd (get_coin_symbol coin s))
         \<and> shutdown_requested (snd (fetch_price coin s))
         \<and> shutdown_requested (snd (poll coin csym prices s))
         \<and> shutdown_requested (snd (main coin C s)))
   \<and> (shutdown_requested (snd (main coin C s))
        = (shutdown_requested s
           \<or> LogInfo shutting_down \<in> set (drop (length (trace s)) (trace (snd (main coin C s))))))"
proof -
  have start: "\<not> shutdown_requested (initial sigs outs)"
    by (simp add: initial_def)
  have kept: "shutdown_requested (emit ev s)
         \<and> shutdown_requested (deliver_sigint s)
         \<and> shutdown_requested (snd (session_get u p s))
         \<and> shutdown_requested (snd (update_retry_info n e s))
         \<and> shutdown_requested (snd (attempt u p d s))
         \<and> shutdown_requested (snd (retry u p d n s))
         \<and> shutdown_requested (snd (get_coin_symbol coin s))
         \<and> shutdown_requested (snd (fetch_price coin s))
         \<and> shutdown_requested (snd (poll coin csym prices s))
         \<and> shutdown_requested (snd (main coin C s))"
    if flag: "shutdown_requested s"
  proof (intro conjI)
    show "shutdown_requested (emit ev s)" using flag by simp
    show "shutdown_requested (deliver_sigint s)"
      by (rule follows_flag [OF follows_deliver_sigint flag])
    show "shutdown_requested (snd (session_get u p s))"
      using flag by (simp only: session_get_flag)
    show "shutdown_requested (snd (update_retry_info n e s))"
      by (rule follows_flag [OF follows_snd(2) flag])
    show "shutdown_requested (snd (attempt u p d s))"
      by (rule follows_flag [OF follows_snd(1) flag])
    show "shutdown_requested (snd (retry u p d n s))"
      by (rule follows_flag [OF follows_snd(3) flag])
    show "shutdown_requested (snd (get_coin_symbol coin s))"
      by (rule follows_flag [OF follows_snd(4) flag])
    show "shutdown_requested (snd (fetch_price coin s))"
      by (rule follows_flag [OF follows_snd(5) flag])
    show "shutdown_requested (snd (poll coin csym prices s))"
      by (rule follows_flag [OF follows_snd(6) flag])
    show "shutdown_requested (snd (main coin C s))"
      by (rule follows_flag [OF follows_snd(7) flag])
  qed
  have written: "shutdown_requested (snd (main coin C s))
        = (shutdown_requested s
           \<or> LogInfo shutting_down \<in> set (drop (length (trace s)) (trace (snd (main coin C s)))))"
    by (rule follows_drop(2) [OF follows_snd(7)])
  show ?thesis
  proof (intro conjI impI)
    show "\<not> shutdown_requested (initial sigs outs)" by (rule start)
    show "shutdown_requested (signal_handler s)" by (rule signal_handler_flag)
    show "shutdown_requested (snd (main coin C s))
        = (shutdown_requested s
           \<or> LogInfo shutting_down \<in> set (drop (length (trace s)) (trace (snd (main coin C s)))))"
      by (rule written)
  qed (use kept in blast)+
qed

theorem C9_shutdown_flag_monotone_witness:
  "shutdown_requested (signal_handler (initial [] []))
   \<and> shutdown_requested (snd (main ''bitcoin'' 10 (signal_handler (initial [] []))))
   \<and> shutdown_requested (snd (fetch_price ''bitcoin'' (signal_handler (initial [] []))))"
proof -
  have h: "shutdown_requested (signal_handler (initial [] []))"
    by (simp add: signal_handler_def)
  from C9_shutdown_flag_monotone
    [where s = "signal_handler (initial [] [])" and coin = "''bitcoin''" and C = 10 and 'a = unit] h
  show ?thesis by blast
qed

text \<open>
  C5.  When the first answer to \<^verbatim>\<open>get_coin_symbol\<close> has status 404, the function
  raises a plain \<^verbatim>\<open>Exception\<close> with the body's text, which the retrier does not
  retry: one call has been issued and nothing else has happened (no sleep, no log
  line, the rest of the remote script is untouched).  \<^verbatim>\<open>main\<close> lets the exception
  pass, so the loop is never entered and the process ends with that exception.
\<close>

theorem C5_not_found_is_terminal:
  assumes "\<not> shutdown_requested (deliver_sigint s)"
    and "remote s = Response r # rest"
    and "status_code r = 404"
  shows "get_coin_symbol coin s
           = (Raised (Exn PlainException (body_text r) None),
              (emit (Call (URL @ ''/coins/'' @ coin) []) (deliver_sigint s))\<lparr>remote := rest\<rparr>)
         \<and> \<not> retry_if_exception_type (Exn PlainException (body_text r) None)
         \<and> trace (snd (get_coin_symbol coin s)) = trace s @ [Call (URL @ ''/coins/'' @ coin) []]
         \<and> remote (snd (get_coin_symbol coin s)) = rest
         \<and> (0 \<le> C \<and> C < 2 ^ 63 \<longrightarrow>
               main coin C s
                 = (Raised (Exn PlainException (body_text r) None),
                    (emit (Call (URL @ ''/coins/'' @ coin) []) (deliver_sigint s))\<lparr>remote := rest\<rparr>)
               \<and> trace (snd (main coin C s)) = trace s @ [Call (URL @ ''/coins/'' @ coin) []])"
proof -
  let ?e = "Exn PlainException (body_text r) None"
  let ?s' = "(emit (Call (URL @ ''/coins/'' @ coin) []) (deliver_sigint s))\<lparr>remote := rest\<rparr>"
  have terminal: "\<not> retry_if_exception_type ?e"
    by (simp add: retry_if_exception_type_def)
  have "attempt (URL @ ''/coins/'' @ coin) [] coin_symbol_of_response s = (Raised ?e, ?s')"
    unfolding attempt_response [OF assms(1,2)] not_found_response [OF assms(3)] by simp
  from retry_terminal [OF this terminal]
  have sym: "get_coin_symbol coin s = (Raised ?e, ?s')"
    by (simp add: get_coin_symbol_def)
  have tr: "trace ?s' = trace s @ [Call (URL @ ''/coins/'' @ coin) []]"
    using deliver_sigint_not_requested(1) [OF assms(1)] by (simp add: emit_def)
  have m: "main coin C s = (Raised ?e, ?s')" if "0 \<le> C" and "C < 2 ^ 63"
    using that sym by (simp add: main_def deque_new_def)
  show ?thesis
    using terminal sym tr m by simp
qed

theorem C5_not_found_is_terminal_witness:
  "script ''Nosuchcoin'' 10 []
     [Response \<lparr>status_code = 404, reason = ''Not Found'', url = URL @ ''/coins/nosuchcoin'',
                body_text = ''coin not found'',
                json_body = Inr (JObj [(''error'', JStr ''coin not found'')])\<rparr>]
   = (Raised (Exn PlainException ''coin not found'' None),
      \<lparr>shutdown_requested = False, signals = [], remote = [],
       trace = [LogInfo ''Script is starting...'', Call (URL @ ''/coins/nosuchcoin'') []]\<rparr>)"
proof -
  let ?r = "\<lparr>status_code = 404, reason = ''Not Found'', url = URL @ ''/coins/nosuchcoin'',
                body_text = ''coin not found'',
                json_body = Inr (JObj [(''error'', JStr ''coin not found'')])\<rparr>"
  let ?s = "initial [] [Response ?r]"
  have h1: "\<not> shutdown_requested (deliver_sigint ?s)"
    by (simp add: initial_def deliver_sigint_def)
  have h2: "remote ?s = Response ?r # []"
    by (simp add: initial_def)
  have h3: "status_code ?r = 404"
    by simp
  have low: "map lower_char ''Nosuchcoin'' = ''nosuchcoin''"
    by code_simp
  from C5_not_found_is_terminal [OF h1 h2 h3, of "''nosuchcoin''" 10]
  show ?thesis
    unfolding script_def low by (simp add: initial_def deliver_sigint_def emit_def)
qed

text \<open>
  C4.  As stated the claim fails: after four failures and a success no diagnostic
  line has been written.  What holds: the hook writes nothing after a failed attempt
  whose number is not a multiple of 5; after one whose number is 5, 10, ... and whose
  exception carries a response with a JSON object as body, in which \<^verbatim>\<open>status\<close> is
  absent or itself an object, it writes one line, which shows
  \<^verbatim>\<open>status.error_message\<close> of that body when it is there and the exception's text
  otherwise.  Four failures of \<^verbatim>\<open>fetch_price\<close> followed by a success give the
  waits 1, 2, 4, 8, no line, and the value of the fifth attempt; five failures followed
  by a success give exactly one line, after the fifth failure, and the value of the
  sixth attempt.
\<close>

theorem C4_diagnostic_every_fifth_failure:
  "(n = 0 \<or> n mod 5 \<noteq> 0 \<longrightarrow> update_retry_info n e s = (Returned (), s))
   \<and> (n \<noteq> 0 \<and> n mod 5 = 0 \<and> exn_response e = Some r \<and> json_body r = Inr (JObj kvs)
        \<and> map_of kvs ''status'' = Some (JObj st) \<and> map_of st ''error_message'' = Some msg
        \<longrightarrow> update_retry_info n e s = (Returned (), emit (LogError msg) s))
   \<and> (n \<noteq> 0 \<and> n mod 5 = 0 \<and> exn_response e = Some r \<and> json_body r = Inr (JObj kvs)
        \<and> (map_of kvs ''status'' = None
             \<or> map_of kvs ''status'' = Some (JObj st) \<and> map_of st ''error_message'' = None)
        \<longrightarrow> update_retry_info n e s = (Returned (), emit (LogError (JStr (str_exn e))) s))
   \<and> (signals s = [] \<and> \<not> shutdown_requested s
        \<and> remote s = outs @ Response ok # rest \<and> length outs = 4
        \<and> (\<forall>out\<in>set outs. \<exists>e. raised_by (price_of_response coin) out = Some e
                                  \<and> retry_if_exception_type e)
        \<and> price_of_response coin ok = Inr v
        \<longrightarrow> fetch_price coin s =
              (Returned v,
               s\<lparr>remote := rest,
                 trace := trace s @
                   [Call (URL @ ''/simple/price'') (price_params coin), Sleep 1,
                    Call (URL @ ''/simple/price'') (price_params coin), Sleep 2,
                    Call (URL @ ''/simple/price'') (price_params coin), Sleep 4,
                    Call (URL @ ''/simple/price'') (price_params coin), Sleep 8,
                    Call (URL @ ''/simple/price'') (price_params coin)]\<rparr>))
   \<and> (signals s = [] \<and> \<not> shutdown_requested s
        \<and> remote s = outs @ fifth # Response ok # rest \<and> length outs = 4
        \<and> (\<forall>out\<in>set outs. \<exists>e. raised_by (price_of_response coin) out = Some e
                                  \<and> retry_if_exception_type e)
        \<and> raised_by (price_of_response coin) fifth = Some e_fifth \<and> retry_if_exception_type e_fifth
        \<and> error_message_of e_fifth = Inr msg_fifth
        \<and> price_of_response coin ok = Inr v
        \<longrightarrow> fetch_price coin s =
              (Returned v,
               s\<lparr>remote := rest,
                 trace := trace s @
                   [Call (URL @ ''/simple/price'') (price_params coin), Sleep 1,
                    Call (URL @ ''/simple/price'') (price_params coin), Sleep 2,
                    Call (URL @ ''/simple/price'') (price_params coin), Sleep 4,
                    Call (URL @ ''/simple/price'') (price_params coin), Sleep 8,
                    Call (URL @ ''/simple/price'') (price_params coin), LogError msg_fifth, Sleep 16,
                    Call (URL @ ''/simple/price'') (price_params coin)]\<rparr>))"
proof (intro conjI impI; (elim conjE)?)
  assume "n = 0 \<or> n mod 5 \<noteq> 0"
  then show "update_retry_info n e s = (Returned (), s)"
    by (auto simp: update_retry_info_def)
next
  assume "n \<noteq> 0" "n mod 5 = 0" "exn_response e = Some r" "json_body r = Inr (JObj kvs)"
    "map_of kvs ''status'' = Some (JObj st)" "map_of st ''error_message'' = Some msg"
  then show "update_retry_info n e s = (Returned (), emit (LogError msg) s)"
    by (simp add: update_retry_info_logs error_message_of_body(3))
next
  assume a: "n \<noteq> 0" "n mod 5 = 0" "exn_response e = Some r" "json_body r = Inr (JObj kvs)"
    and b: "map_of kvs ''status'' = None
            \<or> map_of kvs ''status'' = Some (JObj st) \<and> map_of st ''error_message'' = None"
  from b a(3,4) have "error_message_of e = Inr (JStr (str_exn e))"
    using error_message_of_body(1,2) by blast
  with a(1,2) show "update_retry_info n e s = (Returned (), emit (LogError (JStr (str_exn e))) s)"
    by (simp add: update_retry_info_logs)
next
  assume "signals s = []" "\<not> shutdown_requested s"
    "remote s = outs @ Response ok # rest" "length outs = 4"
    "\<forall>out\<in>set outs. \<exists>e. raised_by (price_of_response coin) out = Some e
        \<and> retry_if_exception_type e"
    "price_of_response coin ok = Inr v"
  then show "fetch_price coin s =
              (Returned v,
               s\<lparr>remote := rest,
                 trace := trace s @
                   [Call (URL @ ''/simple/price'') (price_params coin), Sleep 1,
                    Call (URL @ ''/simple/price'') (price_params coin), Sleep 2,
                    Call (URL @ ''/simple/price'') (price_params coin), Sleep 4,
                    Call (URL @ ''/simple/price'') (price_params coin), Sleep 8,
                    Call (URL @ ''/simple/price'') (price_params coin)]\<rparr>)"
    unfolding fetch_price_def by (rule retry_four_failures)
next
  assume "signals s = []" "\<not> shutdown_requested s"
    "remote s = outs @ fifth # Response ok # rest" "length outs = 4"
    "\<forall>out\<in>set outs. \<exists>e. raised_by (price_of_response coin) out = Some e
        \<and> retry_if_exception_type e"
    "raised_by (price_of_response coin) fifth = Some e_fifth" "retry_if_exception_type e_fifth"
    "error_message_of e_fifth = Inr msg_fifth"
    "price_of_response coin ok = Inr v"
  then show "fetch_price coin s =
              (Returned v,
               s\<lparr>remote := rest,
                 trace := trace s @
                   [Call (URL @ ''/simple/price'') (price_params coin), Sleep 1,
                    Call (URL @ ''/simple/price'') (price_params coin), Sleep 2,
                    Call (URL @ ''/simple/price'') (price_params coin), Sleep 4,
                    Call (URL @ ''/simple/price'') (price_params coin), Sleep 8,
                    Call (URL @ ''/simple/price'') (price_params coin), LogError msg_fifth, Sleep 16,
                    Call (URL @ ''/simple/price'') (price_params coin)]\<rparr>)"
    unfolding fetch_price_def by (rule retry_five_failures)
qed


theorem C4_diagnostic_every_fifth_failure_witness:
  "update_retry_info 4 (Exn RequestException ''timed out'' None) (initial [] [])
     = (Returned (), initial [] [])
   \<and> fetch_price ''bitcoin''
       \<lparr>shutdown_requested = False, signals = [],
        remote = [NetworkError ''timed out'', NetworkError ''timed out'', NetworkError ''timed out'',
                  NetworkError ''timed out'',
                  Response \<lparr>status_code = 429, reason = ''Too Many Requests'', url = ''u'',
                     body_text = [],
                     json_body = Inr (JObj [(''status'', JObj [(''error_code'', JInt 429),
                                     (''error_message'', JStr ''Rate limit exceeded'')])])\<rparr>,
                  Response \<lparr>status_code = 200, reason = ''OK'', url = URL @ ''/simple/price'',
                     body_text = [],
                     json_body = Inr (JObj [(''bitcoin'', JObj [(''usd'', JInt 67000),
                                     (''last_updated_at'', JInt 1700000000)])])\<rparr>],
        trace = []\<rparr>
     = (Returned (JInt 67000, ''2023-11-14T22:13:20''),
        \<lparr>shutdown_requested = False, signals = [], remote = [],
         trace = [Call (URL @ ''/simple/price'') (price_params ''bitcoin''), Sleep 1,
                  Call (URL @ ''/simple/price'') (price_params ''bitcoin''), Sleep 2,
                  Call (URL @ ''/simple/price'') (price_params ''bitcoin''), Sleep 4,
                  Call (URL @ ''/simple/price'') (price_params ''bitcoin''), Sleep 8,
                  Call (URL @ ''/simple/price'') (price_params ''bitcoin''),
                  LogError (JStr ''Rate limit exceeded''), Sleep 16,
                  Call (URL @ ''/simple/price'') (price_params ''bitcoin'')]\<rparr>)"
proof -
  let ?busy = "\<lparr>status_code = 429, reason = ''Too Many Requests'', url = ''u'', body_text = [],
      json_body = Inr (JObj [(''status'', JObj [(''error_code'', JInt 429),
                                                (''error_message'', JStr ''Rate limit exceeded'')])])\<rparr>"
  let ?ok = "\<lparr>status_code = 200, reason = ''OK'', url = URL @ ''/simple/price'', body_text = [],
      json_body = Inr (JObj [(''bitcoin'', JObj [(''usd'', JInt 67000),
                                                 (''last_updated_at'', JInt 1700000000)])])\<rparr>"
  let ?outs = "[NetworkError ''timed out'', NetworkError ''timed out'', NetworkError ''timed out'',
                NetworkError ''timed out'']"
  let ?e5 = "Exn RequestException ''429 Client Error: Too Many Requests for url: u'' (Some ?busy)"
  let ?s = "\<lparr>shutdown_requested = False, signals = [],
             remote = ?outs @ Response ?busy # Response ?ok # [], trace = []\<rparr>"
  have h1: "signals ?s = [] \<and> \<not> shutdown_requested ?s
            \<and> remote ?s = ?outs @ Response ?busy # Response ?ok # [] \<and> length ?outs = 4"
    by simp
  have h2: "\<forall>out\<in>set ?outs. \<exists>e. raised_by (price_of_response ''bitcoin'') out = Some e
                                     \<and> retry_if_exception_type e"
    by (simp add: network_error_raised)
  have h3: "raised_by (price_of_response ''bitcoin'') (Response ?busy) = Some ?e5"
    by (simp add: raised_by_def too_many_requests_example)
  have h4: "retry_if_exception_type ?e5"
    by (rule network_error_raised(2))
  have h5: "error_message_of ?e5 = Inr (JStr ''Rate limit exceeded'')"
    by (simp add: error_message_of_def response_json_def dict_get_def)
  note h6 = price_of_response_example
  have quiet: "update_retry_info 4 (Exn RequestException ''timed out'' None) (initial [] [])
                 = (Returned (), initial [] [])"
    using C4_diagnostic_every_fifth_failure
      [where n = 4 and e = "Exn RequestException ''timed out'' None" and s = "initial [] []"]
    by simp
  have run: "fetch_price ''bitcoin'' ?s =
               (Returned (JInt 67000, ''2023-11-14T22:13:20''),
                ?s\<lparr>remote := [],
                  trace := trace ?s @
                   [Call (URL @ ''/simple/price'') (price_params ''bitcoin''), Sleep 1,
                    Call (URL @ ''/simple/price'') (price_params ''bitcoin''), Sleep 2,
                    Call (URL @ ''/simple/price'') (price_params ''bitcoin''), Sleep 4,
                    Call (URL @ ''/simple/price'') (price_params ''bitcoin''), Sleep 8,
                    Call (URL @ ''/simple/price'') (price_params ''bitcoin''),
                    LogError (JStr ''Rate limit exceeded''), Sleep 16,
                    Call (URL @ ''/simple/price'') (price_params ''bitcoin'')]\<rparr>)"
    using C4_diagnostic_every_fifth_failure
      [where s = ?s and outs = ?outs and fifth = "Response ?busy" and ok = ?ok and rest = "[]"
         and coin = "''bitcoin''" and v = "(JInt 67000, ''2023-11-14T22:13:20'')"
         and e_fifth = ?e5 and msg_fifth = "JStr ''Rate limit exceeded''"]
      h1 h2 h3 h4 h5 h6
    by blast
  from quiet run show ?thesis by simp
qed

theorem C4_counterexample:
  "fetch_price ''bitcoin''
       \<lparr>shutdown_requested = False, signals = [],
        remote = [NetworkError ''timed out'', NetworkError ''timed out'', NetworkError ''timed out'',
                  NetworkError ''timed out'',
                  Response \<lparr>status_code = 200, reason = ''OK'', url = URL @ ''/simple/price'',
                     body_text = [],
                     json_body = Inr (JObj [(''bitcoin'', JObj [(''usd'', JInt 67000),
                                     (''last_updated_at'', JInt 1700000000)])])\<rparr>],
        trace = []\<rparr>
     = (Returned (JInt 67000, ''2023-11-14T22:13:20''),
        \<lparr>shutdown_requested = False, signals = [], remote = [],
         trace = [Call (URL @ ''/simple/price'') (price_params ''bitcoin''), Sleep 1,
                  Call (URL @ ''/simple/price'') (price_params ''bitcoin''), Sleep 2,
                  Call (URL @ ''/simple/price'') (price_params ''bitcoin''), Sleep 4,
                  Call (URL @ ''/simple/price'') (price_params ''bitcoin''), Sleep 8,
                  Call (URL @ ''/simple/price'') (price_params ''bitcoin'')]\<rparr>)"
proof -
  let ?ok = "\<lparr>status_code = 200, reason = ''OK'', url = URL @ ''/simple/price'', body_text = [],
      json_body = Inr (JObj [(''bitcoin'', JObj [(''usd'', JInt 67000),
                                                 (''last_updated_at'', JInt 1700000000)])])\<rparr>"
  let ?outs = "[NetworkError ''timed out'', NetworkError ''timed out'', NetworkError ''timed out'',
                NetworkError ''timed out'']"
  let ?s = "\<lparr>shutdown_requested = False, signals = [],
             remote = ?outs @ Response ?ok # [], trace = []\<rparr>"
  have "retry (URL @ ''/simple/price'') (price_params ''bitcoin'') (price_of_response ''bitcoin'') 1 ?s
          = (Returned (JInt 67000, ''2023-11-14T22:13:20''),
             ?s\<lparr>remote := [],
               trace := trace ?s @
                 [Call (URL @ ''/simple/price'') (price_params ''bitcoin''), Sleep 1,
                  Call (URL @ ''/simple/price'') (price_params ''bitcoin''), Sleep 2,
                  Call (URL @ ''/simple/price'') (price_params ''bitcoin''), Sleep 4,
                  Call (URL @ ''/simple/price'') (price_params ''bitcoin''), Sleep 8,
                  Call (URL @ ''/simple/price'') (price_params ''bitcoin'')]\<rparr>)"
    by (rule retry_four_failures [where outs = ?outs and ok = ?ok
          and d = "price_of_response ''bitcoin''", OF _ _ _ _ _ price_of_response_example])
       (simp_all add: network_error_raised)
  then show ?thesis
    by (simp add: fetch_price_def)
qed

text \<open>
  C6.  As stated the claim fails: a body without the expected fields ends the loop.
  What holds: an answer with a status from 400 to 599 raises an \<^verbatim>\<open>HTTPError\<close> that
  carries the response, and a body that is not JSON raises a \<^verbatim>\<open>JSONDecodeError\<close>;
  both are \<^verbatim>\<open>RequestException\<close>s.  After such a failed attempt the retrier waits
  and calls again when the attempt's number is not a multiple of 5, and also when it
  is one and the hook finds a message to log, which it does when the exception
  carries a response whose body is a JSON object with \<^verbatim>\<open>status\<close> absent or itself an
  object; after a first attempt it waits one second.  A JSON object that lacks the coin's entry, or whose
  entry lacks \<^verbatim>\<open>usd\<close> or \<^verbatim>\<open>last_updated_at\<close>, raises \<^verbatim>\<open>KeyError\<close>, which is not
  retried: \<^verbatim>\<open>fetch_price\<close> raises it after its single call, and the loop logs it and
  ends.
\<close>

theorem C6_fetch_price_failures:
  "(400 \<le> status_code r \<and> status_code r < 600
      \<longrightarrow> (\<exists>m. price_of_response coin r = Inl (Exn RequestException m (Some r))))
   \<and> ((status_code r < 400 \<or> 600 \<le> status_code r) \<and> json_body r = Inl m
      \<longrightarrow> price_of_response coin r = Inl (Exn RequestException m None))
   \<and> retry_if_exception_type (Exn RequestException m resp)
   \<and> (signals s = [] \<and> \<not> shutdown_requested s \<and> remote s = Response r # rest
        \<and> price_of_response coin r = Inl e \<and> retry_if_exception_type e
      \<longrightarrow> fetch_price coin s =
            retry (URL @ ''/simple/price'') (price_params coin) (price_of_response coin) 2
              (s\<lparr>remote := rest,
                 trace := trace s @ [Call (URL @ ''/simple/price'') (price_params coin), Sleep 1]\<rparr>))
   \<and> (signals s = [] \<and> \<not> shutdown_requested s \<and> remote s = Response r # rest
        \<and> price_of_response coin r = Inl e \<and> retry_if_exception_type e \<and> n mod 5 \<noteq> 0
      \<longrightarrow> retry (URL @ ''/simple/price'') (price_params coin) (price_of_response coin) n s =
            retry (URL @ ''/simple/price'') (price_params coin) (price_of_response coin) (Suc n)
              (s\<lparr>remote := rest,
                 trace := trace s @ [Call (URL @ ''/simple/price'') (price_params coin),
                                     Sleep (retry_wait n)]\<rparr>))
   \<and> (signals s = [] \<and> \<not> shutdown_requested s \<and> remote s = Response r # rest
        \<and> price_of_response coin r = Inl e \<and> retry_if_exception_type e
        \<and> n \<noteq> 0 \<and> n mod 5 = 0 \<and> error_message_of e = Inr msg
      \<longrightarrow> retry (URL @ ''/simple/price'') (price_params coin) (price_of_response coin) n s =
            retry (URL @ ''/simple/price'') (price_params coin) (price_of_response coin) (Suc n)
              (s\<lparr>remote := rest,
                 trace := trace s @ [Call (URL @ ''/simple/price'') (price_params coin),
                                     LogError msg, Sleep (retry_wait n)]\<rparr>))
   \<and> (exn_response e = Some r \<and> json_body r = Inr (JObj kvs)
        \<and> (map_of kvs ''status'' = None \<or> map_of kvs ''status'' = Some (JObj st))
      \<longrightarrow> (\<exists>msg. error_message_of e = Inr msg))
   \<and> ((status_code r < 400 \<or> 600 \<le> status_code r) \<and> json_body r = Inr (JObj kvs)
        \<and> map_of kvs coin = None
      \<longrightarrow> price_of_response coin r = Inl (Exn KeyError (quoted coin) None))
   \<and> ((status_code r < 400 \<or> 600 \<le> status_code r) \<and> json_body r = Inr (JObj kvs)
        \<and> map_of kvs coin = Some (JObj ent) \<and> map_of ent ''usd'' = None
      \<longrightarrow> price_of_response coin r = Inl (Exn KeyError (quoted ''usd'') None))
   \<and> ((status_code r < 400 \<or> 600 \<le> status_code r) \<and> json_body r = Inr (JObj kvs)
        \<and> map_of kvs coin = Some (JObj ent) \<and> map_of ent ''usd'' = Some x
        \<and> map_of ent ''last_updated_at'' = None
      \<longrightarrow> price_of_response coin r = Inl (Exn KeyError (quoted ''last_updated_at'') None))
   \<and> \<not> retry_if_exception_type (Exn KeyError m resp)
   \<and> (signals s = [] \<and> \<not> shutdown_requested s \<and> remote s = Response r # rest
        \<and> price_of_response coin r = Inl e \<and> \<not> retry_if_exception_type e
      \<longrightarrow> fetch_price coin s =
            (Raised e,
             s\<lparr>remote := rest,
               trace := trace s @ [Call (URL @ ''/simple/price'') (price_params coin)]\<rparr>)
          \<and> poll coin csym prices s =
            (Returned (),
             s\<lparr>remote := rest,
               trace := trace s @ [Call (URL @ ''/simple/price'') (price_params coin),
                                   LogError (JStr (str_exn e))]\<rparr>))"
proof (intro conjI impI; (elim conjE)?)
  assume "400 \<le> status_code r" "status_code r < 600"
  then show "\<exists>m. price_of_response coin r = Inl (Exn RequestException m (Some r))"
    by (rule http_error_response)
next
  assume "status_code r < 400 \<or> 600 \<le> status_code r" "json_body r = Inl m"
  then show "price_of_response coin r = Inl (Exn RequestException m None)"
    by (rule not_json_response)
next
  show "retry_if_exception_type (Exn RequestException m resp)"
    by (rule network_error_raised(2))
next
  assume "signals s = []" "\<not> shutdown_requested s" "remote s = Response r # rest"
    "price_of_response coin r = Inl e" "retry_if_exception_type e"
  then show "fetch_price coin s =
            retry (URL @ ''/simple/price'') (price_params coin) (price_of_response coin) 2
              (s\<lparr>remote := rest,
                 trace := trace s @ [Call (URL @ ''/simple/price'') (price_params coin), Sleep 1]\<rparr>)"
    by (rule fetch_price_absorbs)
next
  assume a: "signals s = []" "\<not> shutdown_requested s" "remote s = Response r # rest"
    and b: "price_of_response coin r = Inl e" "retry_if_exception_type e" "n mod 5 \<noteq> 0"
  show "retry (URL @ ''/simple/price'') (price_params coin) (price_of_response coin) n s =
            retry (URL @ ''/simple/price'') (price_params coin) (price_of_response coin) (Suc n)
              (s\<lparr>remote := rest,
                 trace := trace s @ [Call (URL @ ''/simple/price'') (price_params coin),
                                     Sleep (retry_wait n)]\<rparr>)"
    by (rule retry_absorbs [OF a response_raised [OF b(1)] b(2,3)])
next
  assume a: "signals s = []" "\<not> shutdown_requested s" "remote s = Response r # rest"
    and b: "price_of_response coin r = Inl e" "retry_if_exception_type e"
      "n \<noteq> 0" "n mod 5 = 0" "error_message_of e = Inr msg"
  show "retry (URL @ ''/simple/price'') (price_params coin) (price_of_response coin) n s =
            retry (URL @ ''/simple/price'') (price_params coin) (price_of_response coin) (Suc n)
              (s\<lparr>remote := rest,
                 trace := trace s @ [Call (URL @ ''/simple/price'') (price_params coin),
                                     LogError msg, Sleep (retry_wait n)]\<rparr>)"
    by (rule retry_logs [OF a response_raised [OF b(1)] b(2-5)])
next
  assume a: "exn_response e = Some r" "json_body r = Inr (JObj kvs)"
    and b: "map_of kvs ''status'' = None \<or> map_of kvs ''status'' = Some (JObj st)"
  from b show "\<exists>msg. error_message_of e = Inr msg"
  proof
    assume "map_of kvs ''status'' = None"
    from error_message_of_body(1) [OF a this] show ?thesis by blast
  next
    assume st: "map_of kvs ''status'' = Some (JObj st)"
    show ?thesis
    proof (cases "map_of st ''error_message''")
      case None
      from error_message_of_body(2) [OF a st None] show ?thesis by blast
    next
      case (Some msg)
      from error_message_of_body(3) [OF a st Some] show ?thesis by blast
    qed
  qed
next
  assume "status_code r < 400 \<or> 600 \<le> status_code r" "json_body r = Inr (JObj kvs)"
    "map_of kvs coin = None"
  then show "price_of_response coin r = Inl (Exn KeyError (quoted coin) None)"
    by (rule missing_field_response(1))
next
  assume "status_code r < 400 \<or> 600 \<le> status_code r" "json_body r = Inr (JObj kvs)"
    "map_of kvs coin = Some (JObj ent)" "map_of ent ''usd'' = None"
  then show "price_of_response coin r = Inl (Exn KeyError (quoted ''usd'') None)"
    by (rule missing_field_response(2))
next
  assume "status_code r < 400 \<or> 600 \<le> status_code r" "json_body r = Inr (JObj kvs)"
    "map_of kvs coin = Some (JObj ent)" "map_of ent ''usd'' = Some x"
    "map_of ent ''last_updated_at'' = None"
  then show "price_of_response coin r = Inl (Exn KeyError (quoted ''last_updated_at'') None)"
    by (rule missing_field_response(3))
next
  show "\<not> retry_if_exception_type (Exn KeyError m resp)"
    by (rule key_error_not_retried)
next
  assume a: "signals s = []" "\<not> shutdown_requested s" "remote s = Response r # rest"
    "price_of_response coin r = Inl e" "\<not> retry_if_exception_type e"
  show "fetch_price coin s =
            (Raised e,
             s\<lparr>remote := rest,
               trace := trace s @ [Call (URL @ ''/simple/price'') (price_params coin)]\<rparr>)"
    by (rule fetch_price_surfaces(1) [OF a])
  show "poll coin csym prices s =
            (Returned (),
             s\<lparr>remote := rest,
               trace := trace s @ [Call (URL @ ''/simple/price'') (price_params coin),
                                   LogError (JStr (str_exn e))]\<rparr>)"
    by (rule fetch_price_surfaces(2) [OF a])
qed


theorem C6_fetch_price_failures_witness:
  "price_of_response ''bitcoin''
     \<lparr>status_code = 200, reason = ''OK'', url = ''u'', body_text = [],
      json_body = Inr (JObj [(''bitcoin'', JObj [(''usd'', JInt 67000)])])\<rparr>
     = Inl (Exn KeyError (quoted ''last_updated_at'') None)
   \<and> poll ''bitcoin'' ''BTC'' \<lparr>items = [], maxlen = 10\<rparr>
       \<lparr>shutdown_requested = False, signals = [],
        remote = [Response \<lparr>status_code = 200, reason = ''OK'', url = ''u'', body_text = [],
                     json_body = Inr (JObj [(''bitcoin'', JObj [(''usd'', JInt 67000)])])\<rparr>],
        trace = []\<rparr>
     = (Returned (),
        \<lparr>shutdown_requested = False, signals = [], remote = [],
         trace = [Call (URL @ ''/simple/price'') (price_params ''bitcoin''),
                  LogError (JStr (quoted ''last_updated_at''))]\<rparr>)
   \<and> fetch_price ''bitcoin''
       \<lparr>shutdown_requested = False, signals = [],
        remote = [Response \<lparr>status_code = 503, reason = ''Service Unavailable'', url = ''u'',
                     body_text = [], json_body = Inl ''Expecting value''\<rparr>],
        trace = []\<rparr>
     = retry (URL @ ''/simple/price'') (price_params ''bitcoin'') (price_of_response ''bitcoin'') 2
         \<lparr>shutdown_requested = False, signals = [], remote = [],
          trace = [Call (URL @ ''/simple/price'') (price_params ''bitcoin''), Sleep 1]\<rparr>"
proof -
  let ?r = "\<lparr>status_code = 200, reason = ''OK'', url = ''u'', body_text = [],
      json_body = Inr (JObj [(''bitcoin'', JObj [(''usd'', JInt 67000)])])\<rparr>"
  let ?s = "\<lparr>shutdown_requested = False, signals = [], remote = [Response ?r], trace = []\<rparr>"
  let ?e = "Exn KeyError (quoted ''last_updated_at'') None"
  let ?down = "\<lparr>status_code = 503, reason = ''Service Unavailable'', url = ''u'',
      body_text = [], json_body = Inl ''Expecting value''\<rparr>"
  let ?t = "\<lparr>shutdown_requested = False, signals = [], remote = [Response ?down], trace = []\<rparr>"
  let ?e' = "Exn RequestException ''503 Server Error: Service Unavailable for url: u'' (Some ?down)"
  have field: "price_of_response ''bitcoin'' ?r = Inl ?e"
    using C6_fetch_price_failures
      [where r = ?r and coin = "''bitcoin''" and kvs = "[(''bitcoin'', JObj [(''usd'', JInt 67000)])]"
         and ent = "[(''usd'', JInt 67000)]" and x = "JInt 67000"]
    by simp
  have loop: "poll ''bitcoin'' ''BTC'' \<lparr>items = [], maxlen = 10\<rparr> ?s =
          (Returned (),
           ?s\<lparr>remote := [],
             trace := trace ?s @ [Call (URL @ ''/simple/price'') (price_params ''bitcoin''),
                                  LogError (JStr (str_exn ?e))]\<rparr>)"
    using C6_fetch_price_failures
      [where r = ?r and coin = "''bitcoin''" and s = ?s and rest = "[]" and e = ?e
         and m = "quoted ''last_updated_at''" and resp = None and csym = "''BTC''" and prices = "\<lparr>items = [], maxlen = 10\<rparr>"]
      field
    by simp
  have down: "price_of_response ''bitcoin'' ?down = Inl ?e'"
    by code_simp
  have again: "fetch_price ''bitcoin'' ?t =
      retry (URL @ ''/simple/price'') (price_params ''bitcoin'') (price_of_response ''bitcoin'') 2
        (?t\<lparr>remote := [],
           trace := trace ?t @ [Call (URL @ ''/simple/price'') (price_params ''bitcoin''), Sleep 1]\<rparr>)"
    using C6_fetch_price_failures
      [where r = ?down and coin = "''bitcoin''" and s = ?t and rest = "[]" and e = ?e'
         and m = "''503 Server Error: Service Unavailable for url: u''" and resp = "Some ?down"]
      down
    by simp
  from field loop again show ?thesis by simp
qed

theorem C6_counterexample:
  "poll ''bitcoin'' ''BTC'' \<lparr>items = [], maxlen = 10\<rparr>
       \<lparr>shutdown_requested = False, signals = [],
        remote = [Response \<lparr>status_code = 200, reason = ''OK'', url = ''u'', body_text = [],
                     json_body = Inr (JObj [(''bitcoin'', JObj [])])\<rparr>,
                  Response \<lparr>status_code = 200, reason = ''OK'', url = ''u'', body_text = [],
                     json_body = Inr (JObj [(''bitcoin'', JObj [(''usd'', JInt 67000),
                                     (''last_updated_at'', JInt 1700000000)])])\<rparr>],
        trace = []\<rparr>
     = (Returned (),
        \<lparr>shutdown_requested = False, signals = [],
         remote = [Response \<lparr>status_code = 200, reason = ''OK'', url = ''u'', body_text = [],
                     json_body = Inr (JObj [(''bitcoin'', JObj [(''usd'', JInt 67000),
                                     (''last_updated_at'', JInt 1700000000)])])\<rparr>],
         trace = [Call (URL @ ''/simple/price'') (price_params ''bitcoin''),
                  LogError (JStr (quoted ''usd''))]\<rparr>)"
proof -
  let ?r = "\<lparr>status_code = 200, reason = ''OK'', url = ''u'', body_text = [],
      json_body = Inr (JObj [(''bitcoin'', JObj [])])\<rparr>"
  let ?ok = "\<lparr>status_code = 200, reason = ''OK'', url = ''u'', body_text = [],
      json_body = Inr (JObj [(''bitcoin'', JObj [(''usd'', JInt 67000),
                                                 (''last_updated_at'', JInt 1700000000)])])\<rparr>"
  let ?s = "\<lparr>shutdown_requested = False, signals = [], remote = [Response ?r, Response ?ok],
             trace = []\<rparr>"
  let ?e = "Exn KeyError (quoted ''usd'') None"
  have field: "price_of_response ''bitcoin'' ?r = Inl ?e"
    by (rule missing_field_response(2) [where kvs = "[(''bitcoin'', JObj [])]" and ent = "[]"])
       simp_all
  have "poll ''bitcoin'' ''BTC'' \<lparr>items = [], maxlen = 10\<rparr> ?s =
          (Returned (),
           ?s\<lparr>remote := [Response ?ok],
             trace := trace ?s @ [Call (URL @ ''/simple/price'') (price_params ''bitcoin''),
                                  LogError (JStr (str_exn ?e))]\<rparr>)"
    by (rule fetch_price_surfaces(2) [OF _ _ _ field key_error_not_retried]) simp_all
  then show ?thesis by simp
qed






end
